theory Spec2Isabelle
  imports Main
begin

section \<open>Authentication and abuse control of the Eco-product backend\<close>

text \<open>
  A shallow embedding of \<^verbatim>\<open>backend/src/middleware/rateLimit.ts\<close>,
  \<^verbatim>\<open>backend/src/middleware/auth.ts\<close> and the login handlers of
  \<^verbatim>\<open>backend/src/routes/auth.ts\<close>.

  Conventions of the embedding.
  \<^item> Time is the number of milliseconds since the epoch, an \<open>int\<close>. Every function
    that reads the clock takes the reading as its parameter \<open>now\<close>. A handler is
    run at one reading, which it hands to each helper it calls, with one exception: the
    lockout guard tests the expiry against one reading and computes the remainder from
    the next, and the answer shows the difference, so the second reading is a parameter
    of its own, \<open>later\<close>.
  \<^item> JavaScript strings are \<open>string\<close>, a \<open>char\<close> standing for one code unit;
    \<open>undefined\<close> and \<open>null\<close> are \<open>None\<close>. The code units of a header value are
    below 256 (Node decodes headers as latin1), and an email the schema has accepted is
    ASCII.
  \<^item> The in-memory \<open>Map\<close> is a map \<open>string \<rightharpoonup> ip_entry\<close>; the Prisma tables are
    lists of records, searched and updated the way the queries do.
  \<^item> The libraries (bcrypt, jsonwebtoken, otplib, \<open>decodeURIComponent\<close>) are
    parameters, collected in the record \<open>env\<close>.
  \<^item> The request body is the one the zod schema has accepted, and \<open>ip\<close> is what
    \<^verbatim>\<open>getClientIp\<close> returns for the request.
  \<^item> The database is taken to answer every query; a query it refuses (an insertion
    under a key that exists, an update of a row that does not) is the server error the
    handler's \<^verbatim>\<open>catch\<close> produces.
  \<^item> The Vietnamese message texts are the constructors of \<open>message\<close>, with the
    number the template interpolates as argument.
\<close>

subsection \<open>Rate limit configuration\<close>

definition IP_MAX_ATTEMPTS :: int where
  "IP_MAX_ATTEMPTS = 5"

definition IP_WINDOW_MS :: int where
  "IP_WINDOW_MS = 60 * 1000"

definition EMAIL_MAX_ATTEMPTS :: int where
  "EMAIL_MAX_ATTEMPTS = 10"

definition EMAIL_WINDOW_MS :: int where
  "EMAIL_WINDOW_MS = 60 * 60 * 1000"

definition LOCKOUT_THRESHOLD :: int where
  "LOCKOUT_THRESHOLD = 10"

definition LOCKOUT_DURATION_MS :: int where
  "LOCKOUT_DURATION_MS = 15 * 60 * 1000"

text \<open>\<^verbatim>\<open>Math.ceil(a / b)\<close> for integers \<open>a\<close> and a positive integer \<open>b\<close>.\<close>

definition ceil_div :: "int \<Rightarrow> int \<Rightarrow> int" where
  "ceil_div a b = - ((- a) div b)"

subsection \<open>The in-memory IP attempt tracker\<close>

record ip_entry =
  count :: int
  firstAttempt :: int

type_synonym ip_store = "string \<rightharpoonup> ip_entry"

record ip_check =
  allowed :: bool
  remainingSeconds :: "int option"

definition ip_key :: "string \<Rightarrow> string" where
  "ip_key ip = ''ip:'' @ ip"

definition checkIpRateLimit :: "ip_store \<Rightarrow> string \<Rightarrow> int \<Rightarrow> ip_check" where
  "checkIpRateLimit m ip now =
     (case m (ip_key ip) of
        None \<Rightarrow> \<lparr>allowed = True, remainingSeconds = None\<rparr>
      | Some d \<Rightarrow>
          if now - firstAttempt d > IP_WINDOW_MS
          then \<lparr>allowed = True, remainingSeconds = None\<rparr>
          else if count d \<ge> IP_MAX_ATTEMPTS
          then \<lparr>allowed = False,
                remainingSeconds = Some (ceil_div (IP_WINDOW_MS - (now - firstAttempt d)) 1000)\<rparr>
          else \<lparr>allowed = True, remainingSeconds = None\<rparr>)"

definition recordIpAttempt :: "ip_store \<Rightarrow> string \<Rightarrow> int \<Rightarrow> ip_store" where
  "recordIpAttempt m ip now =
     (case m (ip_key ip) of
        None \<Rightarrow> m(ip_key ip \<mapsto> \<lparr>count = 1, firstAttempt = now\<rparr>)
      | Some d \<Rightarrow>
          if now - firstAttempt d > IP_WINDOW_MS
          then m(ip_key ip \<mapsto> \<lparr>count = 1, firstAttempt = now\<rparr>)
          else m(ip_key ip \<mapsto> d\<lparr>count := count d + 1\<rparr>))"

definition clearIpAttempts :: "ip_store \<Rightarrow> string \<Rightarrow> ip_store" where
  "clearIpAttempts m ip = m(ip_key ip := None)"

text \<open>
  The sweep that \<^verbatim>\<open>setInterval\<close> runs every five minutes: it drops the entries whose
  first attempt is more than the longer of the two windows old.
\<close>

definition cleanupLoginAttempts :: "ip_store \<Rightarrow> int \<Rightarrow> ip_store" where
  "cleanupLoginAttempts m now =
     (let maxWindow = max IP_WINDOW_MS EMAIL_WINDOW_MS
      in (\<lambda>key. case m key of
                  None \<Rightarrow> None
                | Some d \<Rightarrow> if now - firstAttempt d > maxWindow then None else Some d))"

subsection \<open>The durable store\<close>

text \<open>
  The columns are those the handlers read or write. \<open>la_createdAt\<close> is filled by
  the database at insertion; the model fills it with the clock reading of the call. The
  primary key of a login challenge is generated by the database; the model takes it as the
  parameter \<open>newId\<close> of the handler.
\<close>

record user =
  u_id :: string
  u_email :: string
  u_name :: string
  u_passwordHash :: string
  u_totpEnabled :: bool
  u_totpSecret :: "string option"
  u_lockedUntil :: "int option"
  u_lastLoginAt :: "int option"

record loginAttempt =
  la_email :: string
  la_ip :: string
  la_userAgent :: "string option"
  la_success :: bool
  la_userId :: "string option"
  la_createdAt :: int

record loginChallenge =
  ch_id :: string
  ch_userId :: string
  ch_expiresAt :: int
  ch_usedAt :: "int option"

record state =
  loginAttempts :: ip_store
  db_user :: "user list"
  db_loginAttempt :: "loginAttempt list"
  db_loginChallenge :: "loginChallenge list"

text \<open>\<^verbatim>\<open>prisma.user.findUnique({ where: { email } })\<close> and \<^verbatim>\<open>{ where: { id } }\<close>.\<close>

definition findUserByEmail :: "user list \<Rightarrow> string \<Rightarrow> user option" where
  "findUserByEmail us e = find (\<lambda>u. u_email u = e) us"

definition findUserById :: "user list \<Rightarrow> string \<Rightarrow> user option" where
  "findUserById us i = find (\<lambda>u. u_id u = i) us"

definition findChallenge :: "loginChallenge list \<Rightarrow> string \<Rightarrow> loginChallenge option" where
  "findChallenge cs i = find (\<lambda>c. ch_id c = i) cs"

text \<open>
  \<^verbatim>\<open>prisma.loginAttempt.count({ where: { email, success: false, createdAt: { gte: windowStart } } })\<close>
  with \<^verbatim>\<open>windowStart = Date.now() - EMAIL_WINDOW_MS\<close>.
\<close>

definition countFailed :: "loginAttempt list \<Rightarrow> string \<Rightarrow> int \<Rightarrow> int" where
  "countFailed ledger e now =
     int (length (filter (\<lambda>a. la_email a = e \<and> \<not> la_success a
                              \<and> la_createdAt a \<ge> now - EMAIL_WINDOW_MS) ledger))"

text \<open>JavaScript's \<^verbatim>\<open>x || null\<close> and \<^verbatim>\<open>!x\<close> on an optional string: the empty string is falsy.\<close>

definition truthy :: "string option \<Rightarrow> bool" where
  "truthy x = (case x of None \<Rightarrow> False | Some s \<Rightarrow> s \<noteq> [])"

definition or_null :: "string option \<Rightarrow> string option" where
  "or_null x = (if truthy x then x else None)"

subsection \<open>Responses\<close>

datatype message =
    MsgIpRateLimit "int option"
  | MsgAccountLocked int
  | MsgEmailRateLimit
  | MsgInvalidCredentials
  | MsgAccountNowLocked int
  | MsgChallengeNotFound
  | MsgChallengeUsed
  | MsgChallengeExpired
  | MsgTotpNotConfigured
  | MsgInvalidTotp
  | MsgUnauthorized
  | MsgInternal

record public_user =
  pu_id :: string
  pu_email :: string
  pu_name :: string

text \<open>
  What a handler sends: the status, the fields of the JSON body, and the value of the
  \<^verbatim>\<open>eco_token\<close> cookie when \<^verbatim>\<open>setAuthCookie\<close> was called.
\<close>

record response =
  status :: int
  error :: "message option"
  code :: "string option"
  retryAfter :: "int option"
  cookie :: "string option"
  totpRequired :: "bool option"
  challengeId :: "string option"
  expiresAt :: "int option"
  body_user :: "public_user option"

definition reply :: "int \<Rightarrow> response" where
  "reply s = \<lparr>status = s, error = None, code = None, retryAfter = None, cookie = None,
              totpRequired = None, challengeId = None, expiresAt = None, body_user = None\<rparr>"

definition public :: "user \<Rightarrow> public_user" where
  "public u = \<lparr>pu_id = u_id u, pu_email = u_email u, pu_name = u_name u\<rparr>"

subsection \<open>The lockout and email guards, and the ledger\<close>

record lockout_check =
  locked :: bool
  remainingMinutes :: "int option"
  lock_message :: "message option"

text \<open>
  \<open>now\<close> is the reading of \<^verbatim>\<open>new Date()\<close> in the test
  \<^verbatim>\<open>user.lockedUntil > new Date()\<close>, \<open>later\<close> the reading of
  \<^verbatim>\<open>Date.now()\<close> in \<^verbatim>\<open>user.lockedUntil.getTime() - Date.now()\<close>.
\<close>

definition checkAccountLockout :: "state \<Rightarrow> string \<Rightarrow> int \<Rightarrow> int \<Rightarrow> lockout_check" where
  "checkAccountLockout st e now later =
     (case findUserByEmail (db_user st) e of
        None \<Rightarrow> \<lparr>locked = False, remainingMinutes = None, lock_message = None\<rparr>
      | Some u \<Rightarrow>
          (case u_lockedUntil u of
             None \<Rightarrow> \<lparr>locked = False, remainingMinutes = None, lock_message = None\<rparr>
           | Some t \<Rightarrow>
               if t > now
               then (let remainingMs = t - later;
                         mins = ceil_div remainingMs 60000
                     in \<lparr>locked = True, remainingMinutes = Some mins,
                         lock_message = Some (MsgAccountLocked mins)\<rparr>)
               else \<lparr>locked = False, remainingMinutes = None, lock_message = None\<rparr>))"

record email_check =
  e_allowed :: bool
  e_message :: "message option"

definition checkEmailRateLimit :: "state \<Rightarrow> string \<Rightarrow> int \<Rightarrow> email_check" where
  "checkEmailRateLimit st e now =
     (let recentAttempts = countFailed (db_loginAttempt st) e now
      in if recentAttempts \<ge> EMAIL_MAX_ATTEMPTS
         then \<lparr>e_allowed = False, e_message = Some MsgEmailRateLimit\<rparr>
         else \<lparr>e_allowed = True, e_message = None\<rparr>)"

text \<open>\<^verbatim>\<open>prisma.user.updateMany({ where: { email }, data: { lockedUntil } })\<close>.\<close>

definition lockUsers :: "user list \<Rightarrow> string \<Rightarrow> int \<Rightarrow> user list" where
  "lockUsers us e t = map (\<lambda>u. if u_email u = e then u\<lparr>u_lockedUntil := Some t\<rparr> else u) us"

text \<open>\<^verbatim>\<open>prisma.user.updateMany({ where: { email, lockedUntil: { not: null } }, data: { lockedUntil: null } })\<close>.\<close>

definition unlockUsers :: "user list \<Rightarrow> string \<Rightarrow> user list" where
  "unlockUsers us e =
     map (\<lambda>u. if u_email u = e \<and> u_lockedUntil u \<noteq> None then u\<lparr>u_lockedUntil := None\<rparr> else u) us"

text \<open>\<^verbatim>\<open>prisma.user.update({ where: { id }, data: { lastLoginAt: new Date() } })\<close>.\<close>

definition touchLastLogin :: "user list \<Rightarrow> string \<Rightarrow> int \<Rightarrow> user list" where
  "touchLastLogin us i now = map (\<lambda>u. if u_id u = i then u\<lparr>u_lastLoginAt := Some now\<rparr> else u) us"

definition recordLoginAttempt ::
  "state \<Rightarrow> string \<Rightarrow> string \<Rightarrow> string option \<Rightarrow> bool \<Rightarrow> string option \<Rightarrow> int \<Rightarrow> bool \<times> state" where
  "recordLoginAttempt st e ip userAgent success userId now =
     (let st1 = st\<lparr>db_loginAttempt := db_loginAttempt st @
                   [\<lparr>la_email = e, la_ip = ip, la_userAgent = or_null userAgent,
                     la_success = success, la_userId = or_null userId, la_createdAt = now\<rparr>]\<rparr>
      in if \<not> success
         then (let failedCount = countFailed (db_loginAttempt st1) e now
               in if failedCount \<ge> LOCKOUT_THRESHOLD
                  then (True, st1\<lparr>db_user := lockUsers (db_user st1) e (now + LOCKOUT_DURATION_MS)\<rparr>)
                  else (False, st1))
         else (False, st1\<lparr>db_user := unlockUsers (db_user st1) e\<rparr>))"

subsection \<open>The libraries\<close>

record jwt_payload =
  sub :: "string option"

text \<open>
  \<open>bcrypt_compare password hash\<close> is \<^verbatim>\<open>bcrypt.compare\<close>;
  \<open>jwt_sign subject now\<close> is \<^verbatim>\<open>jwt.sign({}, JWT_SECRET, { subject, expiresIn: '7d' })\<close>;
  \<open>jwt_verify token now\<close> is \<^verbatim>\<open>jwt.verify(token, JWT_SECRET)\<close>, \<open>None\<close> when it
  throws (bad signature, expired, malformed);
  \<open>totp_verify token secret now\<close> is \<^verbatim>\<open>authenticator.verify\<close> with \<^verbatim>\<open>window: 1\<close>;
  \<open>decodeURIComponent\<close> is \<open>None\<close> when it throws.
\<close>

record env =
  bcrypt_compare :: "string \<Rightarrow> string \<Rightarrow> bool"
  jwt_sign :: "string \<Rightarrow> int \<Rightarrow> string"
  jwt_verify :: "string \<Rightarrow> int \<Rightarrow> jwt_payload option"
  totp_verify :: "string \<Rightarrow> string \<Rightarrow> int \<Rightarrow> bool"
  decodeURIComponent :: "string \<Rightarrow> string option"

subsection \<open>Strings\<close>

definition toLowerCase :: "string \<Rightarrow> string" where
  "toLowerCase s =
     map (\<lambda>c. if (65::nat) \<le> of_char c \<and> of_char c \<le> (90::nat)
              then char_of (of_char c + (32::nat)) else c) s"

text \<open>
  The white space and line terminators that \<^verbatim>\<open>String.prototype.trim\<close> strips,
  among the code units below 256: tab, line feed, vertical tab, form feed, carriage
  return, space and the no-break space U+00A0.
\<close>

definition is_space :: "char \<Rightarrow> bool" where
  "is_space c = ((of_char c :: nat) \<in> {9, 10, 11, 12, 13, 32, 160})"

definition trim :: "string \<Rightarrow> string" where
  "trim s = rev (dropWhile is_space (rev (dropWhile is_space s)))"

definition normalizeEmail :: "string \<Rightarrow> string" where
  "normalizeEmail e = trim (toLowerCase e)"

subsection \<open>The login handler\<close>

definition ipRateLimited :: "ip_check \<Rightarrow> response" where
  "ipRateLimited ipCheck =
     (reply 429)\<lparr>error := Some (MsgIpRateLimit (remainingSeconds ipCheck)),
                 code := Some ''IP_RATE_LIMIT'',
                 retryAfter := remainingSeconds ipCheck\<rparr>"

definition accountLocked :: "lockout_check \<Rightarrow> response" where
  "accountLocked lockoutCheck =
     (reply 423)\<lparr>error := lock_message lockoutCheck,
                 code := Some ''ACCOUNT_LOCKED'',
                 retryAfter := Some ((case remainingMinutes lockoutCheck of None \<Rightarrow> 0 | Some n \<Rightarrow> n) * 60)\<rparr>"

definition emailRateLimited :: "email_check \<Rightarrow> response" where
  "emailRateLimited emailCheck =
     (reply 429)\<lparr>error := e_message emailCheck, code := Some ''EMAIL_RATE_LIMIT''\<rparr>"

definition invalidCredentials :: response where
  "invalidCredentials = (reply 401)\<lparr>error := Some MsgInvalidCredentials\<rparr>"

definition accountNowLocked :: response where
  "accountNowLocked =
     (reply 423)\<lparr>error := Some (MsgAccountNowLocked (LOCKOUT_DURATION_MS div 60000)),
                 code := Some ''ACCOUNT_LOCKED'',
                 retryAfter := Some (LOCKOUT_DURATION_MS div 1000)\<rparr>"

definition internalError :: response where
  "internalError = (reply 500)\<lparr>error := Some MsgInternal\<rparr>"

text \<open>
  \<^verbatim>\<open>loginChallenge.deleteMany({ where: { userId, OR: [{ expiresAt: { lt: now } }, { usedAt: { not: null } }] } })\<close>.
\<close>

definition purgeChallenges :: "loginChallenge list \<Rightarrow> string \<Rightarrow> int \<Rightarrow> loginChallenge list" where
  "purgeChallenges cs uid now =
     filter (\<lambda>c. \<not> (ch_userId c = uid \<and> (ch_expiresAt c < now \<or> ch_usedAt c \<noteq> None))) cs"

text \<open>
  The part of the handler under \<^verbatim>\<open>===== CREDENTIAL VALIDATION =====\<close>, reached when the
  three guards have let the request through. \<open>e\<close> is the normalised email. An insertion
  under a primary key that exists is refused by the database; the handler's
  \<^verbatim>\<open>catch\<close> turns that into a server error.
\<close>

definition login_credentials ::
  "env \<Rightarrow> state \<Rightarrow> string \<Rightarrow> string option \<Rightarrow> string \<Rightarrow> string \<Rightarrow> int \<Rightarrow> string \<Rightarrow> response \<times> state" where
  "login_credentials ev st ip userAgent e password now newId =
     (case findUserByEmail (db_user st) e of
        None \<Rightarrow>
          (let st1 = st\<lparr>loginAttempts := recordIpAttempt (loginAttempts st) ip now\<rparr>;
               (lockedNow, st2) = recordLoginAttempt st1 e ip userAgent False None now
           in (invalidCredentials, st2))
      | Some u \<Rightarrow>
          if \<not> bcrypt_compare ev password (u_passwordHash u)
          then (let st1 = st\<lparr>loginAttempts := recordIpAttempt (loginAttempts st) ip now\<rparr>;
                    (lockedNow, st2) = recordLoginAttempt st1 e ip userAgent False (Some (u_id u)) now
                in if lockedNow then (accountNowLocked, st2) else (invalidCredentials, st2))
          else
            (let st1 = st\<lparr>loginAttempts := clearIpAttempts (loginAttempts st) ip\<rparr>
             in if \<not> u_totpEnabled u \<or> \<not> truthy (u_totpSecret u)
                then (let (lockedNow, st2) = recordLoginAttempt st1 e ip userAgent True (Some (u_id u)) now;
                          st3 = st2\<lparr>db_user := touchLastLogin (db_user st2) (u_id u) now\<rparr>;
                          token = jwt_sign ev (u_id u) now
                      in ((reply 200)\<lparr>cookie := Some token, totpRequired := Some False,
                                       body_user := Some (public u)\<rparr>, st3))
                else (let st2 = st1\<lparr>db_loginChallenge :=
                                      purgeChallenges (db_loginChallenge st1) (u_id u) now\<rparr>;
                          expAt = now + 2 * 60 * 1000
                      in if findChallenge (db_loginChallenge st2) newId \<noteq> None
                         then (internalError, st2)
                         else (let challenge = \<lparr>ch_id = newId, ch_userId = u_id u,
                                                 ch_expiresAt = expAt, ch_usedAt = None\<rparr>;
                                   st3 = st2\<lparr>db_loginChallenge := db_loginChallenge st2 @ [challenge]\<rparr>
                               in ((reply 200)\<lparr>totpRequired := Some True,
                                                challengeId := Some (ch_id challenge),
                                                expiresAt := Some (ch_expiresAt challenge),
                                                body_user := Some (public u)\<rparr>, st3)))))"

definition login ::
  "env \<Rightarrow> state \<Rightarrow> string \<Rightarrow> string option \<Rightarrow> string \<Rightarrow> string \<Rightarrow> int \<Rightarrow> int \<Rightarrow> string
     \<Rightarrow> response \<times> state" where
  "login ev st ip userAgent email password now later newId =
     (let normalizedEmail = normalizeEmail email;
          ipCheck = checkIpRateLimit (loginAttempts st) ip now
      in if \<not> allowed ipCheck then (ipRateLimited ipCheck, st)
         else (let lockoutCheck = checkAccountLockout st normalizedEmail now later
               in if locked lockoutCheck then (accountLocked lockoutCheck, st)
                  else (let emailCheck = checkEmailRateLimit st normalizedEmail now
                        in if \<not> e_allowed emailCheck then (emailRateLimited emailCheck, st)
                           else login_credentials ev st ip userAgent normalizedEmail password now newId)))"

subsection \<open>The second-factor handler\<close>

text \<open>
  The handler reads the challenge (\<^verbatim>\<open>findUnique\<close>), checks it and the code, and
  then writes \<^verbatim>\<open>usedAt\<close> with \<^verbatim>\<open>loginChallenge.update({ where: { id } })\<close>.
  \<open>loginTotp_check\<close> is the handler up to that \<^verbatim>\<open>await\<close>: it answers
  (\<open>Inl\<close>) or hands the challenge and its user on (\<open>Inr\<close>); \<open>loginTotp_commit\<close> is
  the handler from the update on. \<^verbatim>\<open>challenge.user\<close> is \<^verbatim>\<open>null\<close> when no user
  has the challenge's \<^verbatim>\<open>userId\<close>, and reading a field of it throws.
\<close>

definition markUsed :: "loginChallenge list \<Rightarrow> string \<Rightarrow> int \<Rightarrow> loginChallenge list" where
  "markUsed cs i now = map (\<lambda>c. if ch_id c = i then c\<lparr>ch_usedAt := Some now\<rparr> else c) cs"

definition loginTotp_check ::
  "env \<Rightarrow> state \<Rightarrow> string \<Rightarrow> string option \<Rightarrow> string \<Rightarrow> string \<Rightarrow> int
     \<Rightarrow> (response \<times> state) + (loginChallenge \<times> user)" where
  "loginTotp_check ev st ip userAgent cid totpCode now =
     (case findChallenge (db_loginChallenge st) cid of
        None \<Rightarrow> Inl ((reply 404)\<lparr>error := Some MsgChallengeNotFound\<rparr>, st)
      | Some challenge \<Rightarrow>
          if ch_usedAt challenge \<noteq> None
          then Inl ((reply 410)\<lparr>error := Some MsgChallengeUsed\<rparr>, st)
          else if ch_expiresAt challenge \<le> now
          then Inl ((reply 410)\<lparr>error := Some MsgChallengeExpired\<rparr>, st)
          else (case findUserById (db_user st) (ch_userId challenge) of
                  None \<Rightarrow> Inl (internalError, st)
                | Some u \<Rightarrow>
                    if \<not> u_totpEnabled u \<or> \<not> truthy (u_totpSecret u)
                    then Inl ((reply 403)\<lparr>error := Some MsgTotpNotConfigured\<rparr>, st)
                    else if \<not> totp_verify ev totpCode (the (u_totpSecret u)) now
                    then (let st1 = st\<lparr>loginAttempts := recordIpAttempt (loginAttempts st) ip now\<rparr>;
                              (lockedNow, st2) =
                                 recordLoginAttempt st1 (u_email u) ip userAgent False (Some (u_id u)) now
                          in Inl ((reply 401)\<lparr>error := Some MsgInvalidTotp,
                                                code := Some ''INVALID_TOTP''\<rparr>, st2))
                    else Inr (challenge, u)))"

definition loginTotp_commit ::
  "env \<Rightarrow> state \<Rightarrow> string \<Rightarrow> string option \<Rightarrow> loginChallenge \<Rightarrow> user \<Rightarrow> int \<Rightarrow> response \<times> state" where
  "loginTotp_commit ev st ip userAgent challenge u now =
     (if findChallenge (db_loginChallenge st) (ch_id challenge) = None then (internalError, st)
      else
       (let st1 = st\<lparr>db_loginChallenge := markUsed (db_loginChallenge st) (ch_id challenge) now\<rparr>;
            (lockedNow, st2) = recordLoginAttempt st1 (u_email u) ip userAgent True (Some (u_id u)) now
        in if findUserById (db_user st2) (u_id u) = None then (internalError, st2)
           else (let st3 = st2\<lparr>db_user := touchLastLogin (db_user st2) (u_id u) now\<rparr>;
                     st4 = st3\<lparr>loginAttempts := clearIpAttempts (loginAttempts st3) ip\<rparr>;
                     token = jwt_sign ev (u_id u) now
                 in ((reply 200)\<lparr>cookie := Some token, body_user := Some (public u)\<rparr>, st4))))"

definition loginTotp ::
  "env \<Rightarrow> state \<Rightarrow> string \<Rightarrow> string option \<Rightarrow> string \<Rightarrow> string \<Rightarrow> int \<Rightarrow> response \<times> state" where
  "loginTotp ev st ip userAgent cid totpCode now =
     (case loginTotp_check ev st ip userAgent cid totpCode now of
        Inl r \<Rightarrow> r
      | Inr (challenge, u) \<Rightarrow> loginTotp_commit ev st ip userAgent challenge u now)"

subsection \<open>The auth gate\<close>

record request =
  authorization :: "string option"
  cookie_header :: "string option"

definition startsWith :: "string \<Rightarrow> string \<Rightarrow> bool" where
  "startsWith s p = (take (length p) s = p)"

text \<open>\<^verbatim>\<open>s.split(c)\<close> for a one-character separator, and \<^verbatim>\<open>xs.join(sep)\<close>.\<close>

fun split_on :: "char \<Rightarrow> string \<Rightarrow> string list" where
  "split_on c [] = [[]]"
| "split_on c (x # xs) =
     (if x = c then [] # split_on c xs
      else (case split_on c xs of
              [] \<Rightarrow> [[x]]
            | y # ys \<Rightarrow> (x # y) # ys))"

fun join :: "string \<Rightarrow> string list \<Rightarrow> string" where
  "join sep [] = []"
| "join sep [x] = x"
| "join sep (x # y # ys) = x @ sep @ join sep (y # ys)"

text \<open>The loop of \<^verbatim>\<open>getCookieValue\<close> over the parts of the header.\<close>

fun cookieLoop :: "env \<Rightarrow> string \<Rightarrow> string list \<Rightarrow> string option" where
  "cookieLoop ev name [] = None"
| "cookieLoop ev name (part # parts) =
     (case split_on (CHR ''='') (trim part) of
        [] \<Rightarrow> cookieLoop ev name parts
      | k # rest \<Rightarrow>
          if k = name
          then (let v = join ''='' rest
                in case decodeURIComponent ev v of Some d \<Rightarrow> Some d | None \<Rightarrow> Some v)
          else cookieLoop ev name parts)"

definition getCookieValue :: "env \<Rightarrow> string option \<Rightarrow> string \<Rightarrow> string option" where
  "getCookieValue ev cookieHeader name =
     (if \<not> truthy cookieHeader then None
      else cookieLoop ev name (split_on (CHR '';'') (the cookieHeader)))"

definition getTokenFromRequest :: "env \<Rightarrow> request \<Rightarrow> string option" where
  "getTokenFromRequest ev req =
     (case authorization req of
        None \<Rightarrow> getCookieValue ev (cookie_header req) ''eco_token''
      | Some header \<Rightarrow>
          if startsWith header ''Bearer ''
          then Some (drop (length ''Bearer '') header)
          else getCookieValue ev (cookie_header req) ''eco_token'')"

text \<open>
  A middleware either calls \<^verbatim>\<open>next()\<close>, with \<^verbatim>\<open>req.user\<close> set or not
  (\<open>Next\<close>), or answers itself (\<open>Reject\<close>).
\<close>

datatype gate = Next "string option" | Reject response

definition unauthorized :: response where
  "unauthorized = (reply 401)\<lparr>error := Some MsgUnauthorized\<rparr>"

definition optionalAuth :: "env \<Rightarrow> request \<Rightarrow> int \<Rightarrow> gate" where
  "optionalAuth ev req now =
     (let token = getTokenFromRequest ev req
      in if \<not> truthy token then Next None
         else (case jwt_verify ev (the token) now of
                 None \<Rightarrow> Next None
               | Some payload \<Rightarrow> if truthy (sub payload) then Next (sub payload) else Next None))"

definition requireAuth :: "env \<Rightarrow> request \<Rightarrow> int \<Rightarrow> gate" where
  "requireAuth ev req now =
     (let token = getTokenFromRequest ev req
      in if \<not> truthy token then Reject unauthorized
         else (case jwt_verify ev (the token) now of
                 None \<Rightarrow> Reject unauthorized
               | Some payload \<Rightarrow> if \<not> truthy (sub payload) then Reject unauthorized
                                 else Next (sub payload)))"

subsection \<open>Runs of failed logins\<close>

text \<open>
  One request to \<^verbatim>\<open>POST /login\<close>: what the client sends, the two clock
  readings of its handling and the key the database would give a new challenge.
\<close>

record attempt =
  a_userAgent :: "string option"
  a_email :: string
  a_password :: string
  a_time :: int
  a_later :: int
  a_newId :: string

text \<open>
  A login attempt has failed when credential verification was reached and refused it:
  the handler answered \<^verbatim>\<open>Invalid credentials\<close> or that the account is now locked.
\<close>

definition login_failed :: "response \<Rightarrow> bool" where
  "login_failed r = (r = invalidCredentials \<or> r = accountNowLocked)"

text \<open>
  The state after a run of logins from one IP that all failed, \<open>None\<close> when one of
  them did not.
\<close>

fun failed_logins :: "env \<Rightarrow> state \<Rightarrow> string \<Rightarrow> attempt list \<Rightarrow> state option" where
  "failed_logins ev st ip [] = Some st"
| "failed_logins ev st ip (a # as) =
     (case login ev st ip (a_userAgent a) (a_email a) (a_password a) (a_time a) (a_later a) (a_newId a) of
        (r, st') \<Rightarrow> if login_failed r then failed_logins ev st' ip as else None)"

subsection \<open>Two second-factor requests for one challenge\<close>

record totp_call =
  c_ip :: string
  c_userAgent :: "string option"
  c_code :: string
  c_time :: int

text \<open>
  Requests \<open>a\<close> and \<open>b\<close> for the challenge \<open>cid\<close>, handled one after the other.
\<close>

definition loginTotp_sequential ::
  "env \<Rightarrow> state \<Rightarrow> string \<Rightarrow> totp_call \<Rightarrow> totp_call \<Rightarrow> response \<times> response \<times> state" where
  "loginTotp_sequential ev st cid a b =
     (let (rA, st1) = loginTotp ev st (c_ip a) (c_userAgent a) cid (c_code a) (c_time a);
          (rB, st2) = loginTotp ev st1 (c_ip b) (c_userAgent b) cid (c_code b) (c_time b)
      in (rA, rB, st2))"

text \<open>
  The same two requests, handled so that each has come to its
  \<^verbatim>\<open>await loginChallenge.update\<close> before the update of the other is run: \<open>a\<close> reads
  and checks, \<open>b\<close> reads and checks, then \<open>a\<close> is run from its update on, then \<open>b\<close>.
  \<open>None\<close> when one of them answers before its update.
\<close>

definition loginTotp_interleaved ::
  "env \<Rightarrow> state \<Rightarrow> string \<Rightarrow> totp_call \<Rightarrow> totp_call \<Rightarrow> (response \<times> response \<times> state) option" where
  "loginTotp_interleaved ev st cid a b =
     (case loginTotp_check ev st (c_ip a) (c_userAgent a) cid (c_code a) (c_time a) of
        Inl r \<Rightarrow> None
      | Inr (chA, uA) \<Rightarrow>
          (case loginTotp_check ev st (c_ip b) (c_userAgent b) cid (c_code b) (c_time b) of
             Inl r \<Rightarrow> None
           | Inr (chB, uB) \<Rightarrow>
               (let (rA, st1) = loginTotp_commit ev st (c_ip a) (c_userAgent a) chA uA (c_time a);
                    (rB, st2) = loginTotp_commit ev st1 (c_ip b) (c_userAgent b) chB uB (c_time b)
                in Some (rA, rB, st2))))"

subsection \<open>Example data\<close>

text \<open>
  A server with one account, \<^verbatim>\<open>a@x.com\<close>, whose password is \<^verbatim>\<open>good\<close>, and
  library stand-ins that can be evaluated. \<open>ex_totp\<close> is the same server once the
  account has enabled its second factor.
\<close>

definition ex_user :: user where
  "ex_user = \<lparr>u_id = ''u1'', u_email = ''a@x.com'', u_name = ''A'', u_passwordHash = ''h'',
              u_totpEnabled = False, u_totpSecret = None, u_lockedUntil = None,
              u_lastLoginAt = None\<rparr>"

definition ex_state :: state where
  "ex_state = \<lparr>loginAttempts = Map.empty, db_user = [ex_user],
               db_loginAttempt = [], db_loginChallenge = []\<rparr>"

definition ex_env :: env where
  "ex_env = \<lparr>bcrypt_compare = (\<lambda>p h. p = ''good'' \<and> h = ''h''),
             jwt_sign = (\<lambda>s t. ''jwt:'' @ s),
             jwt_verify = (\<lambda>t n. if take 4 t = ''jwt:'' then Some \<lparr>sub = Some (drop 4 t)\<rparr> else None),
             totp_verify = (\<lambda>c s n. c = ''123456'' \<and> s = ''SECRET''),
             decodeURIComponent = Some\<rparr>"

definition ex_bad :: "int \<Rightarrow> attempt" where
  "ex_bad t = \<lparr>a_userAgent = None, a_email = ''a@x.com'', a_password = ''bad'',
              a_time = t, a_later = t, a_newId = ''c''\<rparr>"

definition ex_failures :: "nat \<Rightarrow> int \<Rightarrow> loginAttempt list" where
  "ex_failures n t =
     replicate n \<lparr>la_email = ''a@x.com'', la_ip = ''9.9.9.9'', la_userAgent = None,
                  la_success = False, la_userId = Some ''u1'', la_createdAt = t\<rparr>"

text \<open>
  A state in which each of the three guards rejects a login for \<^verbatim>\<open>a@x.com\<close> from
  \<^verbatim>\<open>1.2.3.4\<close> at time 1000: five failures counted for the IP since time 0, the account
  locked until 900000, ten failures in the ledger.
\<close>

definition ex_guarded :: state where
  "ex_guarded = \<lparr>loginAttempts = [ip_key ''1.2.3.4'' \<mapsto> \<lparr>count = 5, firstAttempt = 0\<rparr>],
                 db_user = [ex_user\<lparr>u_lockedUntil := Some 900000\<rparr>],
                 db_loginAttempt = ex_failures 10 0, db_loginChallenge = []\<rparr>"

definition ex_totp_user :: user where
  "ex_totp_user = ex_user\<lparr>u_totpEnabled := True, u_totpSecret := Some ''SECRET''\<rparr>"

definition ex_totp :: state where
  "ex_totp = ex_state\<lparr>db_user := [ex_totp_user]\<rparr>"

text \<open>
  The state after the TOTP account has given its password at time 1000: a challenge
  \<^verbatim>\<open>c1\<close> that expires at 121000.
\<close>

definition ex_challenged :: state where
  "ex_challenged = ex_totp\<lparr>db_loginChallenge :=
      [\<lparr>ch_id = ''c1'', ch_userId = ''u1'', ch_expiresAt = 121000, ch_usedAt = None\<rparr>]\<rparr>"

text \<open>The challenge \<^verbatim>\<open>c1\<close> once it has been used, at time 2000.\<close>

definition ex_used :: state where
  "ex_used = ex_totp\<lparr>db_loginChallenge :=
      [\<lparr>ch_id = ''c1'', ch_userId = ''u1'', ch_expiresAt = 121000, ch_usedAt = Some 2000\<rparr>]\<rparr>"

text \<open>
  The TOTP account with an open challenge while each login guard would reject: the bucket
  of \<^verbatim>\<open>1.2.3.4\<close> is full, the account is locked until 900000 and the ledger holds ten
  failures.
\<close>

definition ex_guarded_totp :: state where
  "ex_guarded_totp =
     \<lparr>loginAttempts = [ip_key ''1.2.3.4'' \<mapsto> \<lparr>count = 7, firstAttempt = 0\<rparr>],
      db_user = [ex_totp_user\<lparr>u_lockedUntil := Some 900000\<rparr>],
      db_loginAttempt = ex_failures 10 0,
      db_loginChallenge =
        [\<lparr>ch_id = ''c1'', ch_userId = ''u1'', ch_expiresAt = 121000, ch_usedAt = None\<rparr>]\<rparr>"

definition ex_call :: "string \<Rightarrow> int \<Rightarrow> totp_call" where
  "ex_call ip t = \<lparr>c_ip = ip, c_userAgent = None, c_code = ''123456'', c_time = t\<rparr>"

text \<open>
  A state in which a login for \<^verbatim>\<open>a@x.com\<close> from \<^verbatim>\<open>1.2.3.4\<close> at time 1000 passes
  the guards although it has a history: three failures counted for that IP, five for
  \<^verbatim>\<open>5.6.7.8\<close>, a lockout that ended at 500 and two failures in the ledger.
\<close>

definition ex_before :: state where
  "ex_before = \<lparr>loginAttempts = [ip_key ''1.2.3.4'' \<mapsto> \<lparr>count = 3, firstAttempt = 0\<rparr>,
                                 ip_key ''5.6.7.8'' \<mapsto> \<lparr>count = 5, firstAttempt = 0\<rparr>],
                db_user = [ex_user\<lparr>u_lockedUntil := Some 500\<rparr>],
                db_loginAttempt = ex_failures 2 0, db_loginChallenge = []\<rparr>"

text \<open>
  Requests to a protected route: a bearer token in the header and another in the cookie;
  the cookie alone; a header whose token does not verify, beside a cookie that would;
  neither.
\<close>

definition ex_req_header :: request where
  "ex_req_header = \<lparr>authorization = Some ''Bearer jwt:u1'',
                    cookie_header = Some ''a=1; eco_token=jwt:u7''\<rparr>"

definition ex_req_cookie :: request where
  "ex_req_cookie = \<lparr>authorization = None, cookie_header = Some ''a=1; eco_token=jwt:u7''\<rparr>"

definition ex_req_bad :: request where
  "ex_req_bad = \<lparr>authorization = Some ''Bearer bogus'', cookie_header = Some ''eco_token=jwt:u7''\<rparr>"

definition ex_req_none :: request where
  "ex_req_none = \<lparr>authorization = None, cookie_header = None\<rparr>"

text \<open>A cookie header whose second pair follows a no-break space (code unit 160).\<close>

definition ex_req_nbsp :: request where
  "ex_req_nbsp = \<lparr>authorization = None,
                  cookie_header = Some (''a=1;'' @ [char_of (160::nat)] @ ''eco_token=jwt:u7'')\<rparr>"

section \<open>Verified properties\<close>

subsection \<open>The IP guard\<close>

lemma ceil_div_pos: "0 < a \<Longrightarrow> 0 < b \<Longrightarrow> 0 < ceil_div a b"
  unfolding ceil_div_def
  by (smt (verit) div_neg_pos_less0 neg_0_less_iff_less)

text \<open>A login that failed at credential verification has counted one failure for its IP.\<close>

lemma login_failed_tracker:
  assumes "login ev st ip ua em pw now later nid = (r, st')" "login_failed r"
  shows "loginAttempts st' = recordIpAttempt (loginAttempts st) ip now"
  using assms
  by (auto simp: login_def login_credentials_def Let_def login_failed_def recordLoginAttempt_def
      ipRateLimited_def accountLocked_def emailRateLimited_def invalidCredentials_def
      accountNowLocked_def reply_def internalError_def checkAccountLockout_def
      checkEmailRateLimit_def
      split: if_splits option.splits prod.splits)

lemma recordIp_open:
  assumes "case m (ip_key ip) of None \<Rightarrow> True | Some d \<Rightarrow> now - firstAttempt d > IP_WINDOW_MS"
  shows "recordIpAttempt m ip now (ip_key ip) = Some \<lparr>count = 1, firstAttempt = now\<rparr>"
  using assms by (simp add: recordIpAttempt_def split: option.splits)

lemma recordIp_same_window:
  assumes "m (ip_key ip) = Some d" "now - firstAttempt d \<le> IP_WINDOW_MS"
  shows "recordIpAttempt m ip now (ip_key ip) = Some (d\<lparr>count := count d + 1\<rparr>)"
  using assms by (simp add: recordIpAttempt_def)

text \<open>
  While the window of a bucket is open, every failed login adds one to its count and
  leaves its start where it is.
\<close>

lemma failed_logins_bucket:
  assumes "failed_logins ev st ip as = Some st'"
    and "loginAttempts st (ip_key ip) = Some d"
    and "\<forall>a\<in>set as. a_time a - firstAttempt d \<le> IP_WINDOW_MS"
  shows "loginAttempts st' (ip_key ip) = Some (d\<lparr>count := count d + int (length as)\<rparr>)"
  using assms
proof (induction as arbitrary: st d)
  case Nil
  then show ?case by simp
next
  case (Cons a as)
  obtain r st1 where step:
    "login ev st ip (a_userAgent a) (a_email a) (a_password a) (a_time a) (a_later a) (a_newId a) = (r, st1)"
    by (cases "login ev st ip (a_userAgent a) (a_email a) (a_password a) (a_time a) (a_later a) (a_newId a)")
  with Cons.prems(1) have failed: "login_failed r" and rest: "failed_logins ev st1 ip as = Some st'"
    by (auto split: if_splits)
  have tr: "loginAttempts st1 = recordIpAttempt (loginAttempts st) ip (a_time a)"
    using login_failed_tracker [OF step failed] .
  have "a_time a - firstAttempt d \<le> IP_WINDOW_MS"
    using Cons.prems(3) by simp
  then have b1: "loginAttempts st1 (ip_key ip) = Some (d\<lparr>count := count d + 1\<rparr>)"
    using tr recordIp_same_window [where m = "loginAttempts st", OF Cons.prems(2)] by simp
  have "\<forall>b\<in>set as. a_time b - firstAttempt (d\<lparr>count := count d + 1\<rparr>) \<le> IP_WINDOW_MS"
    using Cons.prems(3) by simp
  from Cons.IH [OF rest b1 this] show ?case by simp
qed

text \<open>
  A bucket that holds the maximum and whose window has not lapsed rejects the login,
  whatever the email, the password, the store and the libraries are.
\<close>

lemma ip_guard_rejects:
  assumes "loginAttempts st (ip_key ip) = Some d"
    and "count d \<ge> IP_MAX_ATTEMPTS"
    and "now - firstAttempt d \<le> IP_WINDOW_MS"
  shows "login ev st ip ua email password now later newId =
           ((reply 429)\<lparr>error := Some (MsgIpRateLimit
                                  (Some (ceil_div (IP_WINDOW_MS - (now - firstAttempt d)) 1000))),
                        code := Some ''IP_RATE_LIMIT'',
                        retryAfter := Some (ceil_div (IP_WINDOW_MS - (now - firstAttempt d)) 1000)\<rparr>,
            st)"
  using assms by (simp add: login_def checkIpRateLimit_def ipRateLimited_def Let_def)

text \<open>
  The sweep is not seen by the guard: what it drops, the guard and the counter already
  treat as lapsed (for a sweep that ran no later than the request).
\<close>

lemma cleanup_invisible:
  assumes "swept \<le> now"
  shows "checkIpRateLimit (cleanupLoginAttempts m swept) ip now = checkIpRateLimit m ip now"
    and "recordIpAttempt (cleanupLoginAttempts m swept) ip now (ip_key ip) =
         recordIpAttempt m ip now (ip_key ip)"
  using assms
  by (auto simp: checkIpRateLimit_def recordIpAttempt_def cleanupLoginAttempts_def Let_def
      IP_WINDOW_MS_def EMAIL_WINDOW_MS_def split: option.splits)

text \<open>
  At the last millisecond of the window the guard still rejects, and the number of
  seconds it announces is zero: five failures at time 0, a sixth request at 60000.
\<close>

lemma ip_guard_window_end:
  "case failed_logins ex_env ex_state ''1.2.3.4''
          [ex_bad 0, ex_bad 0, ex_bad 0, ex_bad 0, ex_bad 0] of
     None \<Rightarrow> False
   | Some s \<Rightarrow>
       fst (login ex_env s ''1.2.3.4'' None ''a@x.com'' ''good'' 60000 60000 ''c'') =
         (reply 429)\<lparr>error := Some (MsgIpRateLimit (Some 0)), code := Some ''IP_RATE_LIMIT'',
                      retryAfter := Some 0\<rparr>"
  by code_simp

text \<open>
  Claim C2, as stated: after five failed logins from one IP within 60 seconds, the next
  login from that IP is rejected by the IP guard. It fails on the code, whose window is
  not sliding: a bucket keeps the time of the first failure it counted and starts again
  from one when a failure arrives more than 60 seconds after it. Failures at 0 s, 58 s,
  59 s, 60 s, 61 s and 62 s leave the bucket at two (the failure at 61 s opened a new
  window), so the five failures between 58 s and 62 s do not stop the request at 63 s: with
  the right password it is answered with a session.
\<close>

theorem ip_window_not_sliding_counterexample:
  "case failed_logins ex_env ex_state ''1.2.3.4''
          [ex_bad 0, ex_bad 58000, ex_bad 59000, ex_bad 60000, ex_bad 61000, ex_bad 62000] of
     None \<Rightarrow> False
   | Some s \<Rightarrow>
       loginAttempts s (ip_key ''1.2.3.4'') = Some \<lparr>count = 2, firstAttempt = 61000\<rparr> \<and>
       fst (login ex_env s ''1.2.3.4'' None ''a@x.com'' ''good'' 63000 63000 ''c'') =
         (reply 200)\<lparr>cookie := Some ''jwt:u1'', totpRequired := Some False,
                      body_user := Some \<lparr>pu_id = ''u1'', pu_email = ''a@x.com'', pu_name = ''A''\<rparr>\<rparr>"
  by code_simp

text \<open>
  Claim C2, amended: a window opens at the first failed login recorded while the IP has no
  bucket or a bucket older than 60 seconds. After five failed logins counted in one window
  (the first of them opened it), every login from that IP that arrives less than 60
  seconds after the window opened is rejected by the IP guard: status 429, code
  \<^verbatim>\<open>IP_RATE_LIMIT\<close>, a strictly positive \<^verbatim>\<open>retryAfter\<close>, the state untouched,
  whatever email and password it carries.
\<close>

theorem five_failures_then_ip_guard:
  assumes run: "failed_logins ev st ip (a # as) = Some st'"
    and five: "length (a # as) = 5"
    and opened: "case loginAttempts st (ip_key ip) of
                   None \<Rightarrow> True
                 | Some d \<Rightarrow> a_time a - firstAttempt d > IP_WINDOW_MS"
    and after: "\<forall>b\<in>set as. a_time b \<le> now"
    and inside: "now - a_time a < IP_WINDOW_MS"
  shows "\<exists>secs. 0 < secs \<and>
           login ev st' ip ua email password now later newId =
             ((reply 429)\<lparr>error := Some (MsgIpRateLimit (Some secs)),
                          code := Some ''IP_RATE_LIMIT'',
                          retryAfter := Some secs\<rparr>, st')"
proof -
  obtain r st1 where step:
    "login ev st ip (a_userAgent a) (a_email a) (a_password a) (a_time a) (a_later a) (a_newId a) = (r, st1)"
    by (cases "login ev st ip (a_userAgent a) (a_email a) (a_password a) (a_time a) (a_later a) (a_newId a)")
  with run have failed: "login_failed r" and rest: "failed_logins ev st1 ip as = Some st'"
    by (auto split: if_splits)
  let ?d = "\<lparr>count = 1, firstAttempt = a_time a\<rparr>"
  have b1: "loginAttempts st1 (ip_key ip) = Some ?d"
    using login_failed_tracker [OF step failed]
      recordIp_open [where m = "loginAttempts st", OF opened] by simp
  have "\<forall>b\<in>set as. a_time b - firstAttempt ?d \<le> IP_WINDOW_MS"
    using after inside by auto
  from failed_logins_bucket [OF rest b1 this] five
  have b5: "loginAttempts st' (ip_key ip) = Some \<lparr>count = 5, firstAttempt = a_time a\<rparr>"
    by simp
  let ?secs = "ceil_div (IP_WINDOW_MS - (now - a_time a)) 1000"
  have "0 < ?secs"
    using inside by (simp add: ceil_div_pos)
  moreover have "login ev st' ip ua email password now later newId =
             ((reply 429)\<lparr>error := Some (MsgIpRateLimit (Some ?secs)),
                          code := Some ''IP_RATE_LIMIT'',
                          retryAfter := Some ?secs\<rparr>, st')"
    using ip_guard_rejects [OF b5, where now = now and later = later and ev = ev and ua = ua
        and email = email and password = password and newId = newId] inside
    by (simp add: IP_MAX_ATTEMPTS_def)
  ultimately show ?thesis by blast
qed

theorem five_failures_then_ip_guard_witness:
  "\<exists>s. failed_logins ex_env ex_state ''1.2.3.4''
          [ex_bad 0, ex_bad 1000, ex_bad 2000, ex_bad 3000, ex_bad 4000] = Some s \<and>
       (\<exists>secs. 0 < secs \<and>
          login ex_env s ''1.2.3.4'' None ''a@x.com'' ''good'' 5000 5000 ''c'' =
            ((reply 429)\<lparr>error := Some (MsgIpRateLimit (Some secs)),
                         code := Some ''IP_RATE_LIMIT'',
                         retryAfter := Some secs\<rparr>, s))"
proof -
  have "failed_logins ex_env ex_state ''1.2.3.4''
          [ex_bad 0, ex_bad 1000, ex_bad 2000, ex_bad 3000, ex_bad 4000] \<noteq> None"
    by code_simp
  then obtain s where run: "failed_logins ex_env ex_state ''1.2.3.4''
          [ex_bad 0, ex_bad 1000, ex_bad 2000, ex_bad 3000, ex_bad 4000] = Some s"
    by blast
  have opened: "case loginAttempts ex_state (ip_key ''1.2.3.4'') of
                   None \<Rightarrow> True
                 | Some d \<Rightarrow> a_time (ex_bad 0) - firstAttempt d > IP_WINDOW_MS"
    by (simp add: ex_state_def)
  have after: "\<forall>b\<in>set [ex_bad 1000, ex_bad 2000, ex_bad 3000, ex_bad 4000]. a_time b \<le> 5000"
    by (simp add: ex_bad_def)
  have inside: "5000 - a_time (ex_bad 0) < IP_WINDOW_MS"
    by (simp add: ex_bad_def IP_WINDOW_MS_def)
  from five_failures_then_ip_guard [OF run _ opened after inside,
      where ua = None and email = "''a@x.com''" and password = "''good''" and later = 5000
        and newId = "''c''"] run
  show ?thesis by simp
qed

subsection \<open>The order of the guards\<close>

lemmas response_defs = ipRateLimited_def accountLocked_def emailRateLimited_def
  invalidCredentials_def accountNowLocked_def internalError_def reply_def

text \<open>
  Claim C1: a login passes the IP guard, then the lockout guard, then the email guard.
  \<^item> When the IP guard rejects, the answer is 429 \<^verbatim>\<open>IP_RATE_LIMIT\<close>, the state is
    untouched, and the answer is the same for every user table, ledger, email, password
    and library: neither later guard nor the password comparison takes part.
  \<^item> When the IP guard lets the request through and the account is locked, the answer is
    423 \<^verbatim>\<open>ACCOUNT_LOCKED\<close>, the state is untouched, and the answer is the same for
    every ledger, password and library: the email guard and the comparison take no part.
  \<^item> When the first two guards let it through and the email guard rejects, the answer is
    429 \<^verbatim>\<open>EMAIL_RATE_LIMIT\<close>, the same for every password and library.
  \<^item> Only when all three have let it through is the request handed to credential
    verification, where the stored hash is compared.
\<close>

theorem login_guards_in_order:
  fixes ev ev2 :: env and st st2 :: state
    and ip email email2 pw pw2 nid nid2 :: string
    and ua ua2 :: "string option" and now later :: int
  defines "e \<equiv> normalizeEmail email"
    and "ipCheck \<equiv> checkIpRateLimit (loginAttempts st) ip now"
    and "lockoutCheck \<equiv> checkAccountLockout st (normalizeEmail email) now later"
    and "emailCheck \<equiv> checkEmailRateLimit st (normalizeEmail email) now"
    and "result \<equiv> login ev st ip ua email pw now later nid"
  shows
   "(\<not> allowed ipCheck \<longrightarrow>
       result = (ipRateLimited ipCheck, st) \<and>
       status (fst result) = 429 \<and> code (fst result) = Some ''IP_RATE_LIMIT'' \<and>
       (loginAttempts st2 = loginAttempts st \<longrightarrow>
          fst (login ev2 st2 ip ua2 email2 pw2 now later nid2) = fst result)) \<and>
    (allowed ipCheck \<and> locked lockoutCheck \<longrightarrow>
       result = (accountLocked lockoutCheck, st) \<and>
       status (fst result) = 423 \<and> code (fst result) = Some ''ACCOUNT_LOCKED'' \<and>
       (loginAttempts st2 = loginAttempts st \<and> db_user st2 = db_user st \<longrightarrow>
          fst (login ev2 st2 ip ua2 email pw2 now later nid2) = fst result)) \<and>
    (allowed ipCheck \<and> \<not> locked lockoutCheck \<and> \<not> e_allowed emailCheck \<longrightarrow>
       result = (emailRateLimited emailCheck, st) \<and>
       status (fst result) = 429 \<and> code (fst result) = Some ''EMAIL_RATE_LIMIT'' \<and>
       login ev2 st ip ua2 email pw2 now later nid2 = result) \<and>
    (allowed ipCheck \<and> \<not> locked lockoutCheck \<and> e_allowed emailCheck \<longrightarrow>
       result = login_credentials ev st ip ua e pw now nid)"
proof -
  have a: "\<not> allowed ipCheck \<Longrightarrow> result = (ipRateLimited ipCheck, st)"
    by (simp add: result_def ipCheck_def login_def Let_def)
  have a2: "\<not> allowed ipCheck \<Longrightarrow> loginAttempts st2 = loginAttempts st \<Longrightarrow>
       fst (login ev2 st2 ip ua2 email2 pw2 now later nid2) = ipRateLimited ipCheck"
    by (simp add: ipCheck_def login_def Let_def)
  have b: "allowed ipCheck \<Longrightarrow> locked lockoutCheck \<Longrightarrow> result = (accountLocked lockoutCheck, st)"
    by (simp add: result_def ipCheck_def lockoutCheck_def login_def Let_def)
  have b2: "allowed ipCheck \<Longrightarrow> locked lockoutCheck \<Longrightarrow>
       loginAttempts st2 = loginAttempts st \<Longrightarrow> db_user st2 = db_user st \<Longrightarrow>
       fst (login ev2 st2 ip ua2 email pw2 now later nid2) = accountLocked lockoutCheck"
    by (simp add: ipCheck_def lockoutCheck_def login_def Let_def checkAccountLockout_def)
  have c: "allowed ipCheck \<Longrightarrow> \<not> locked lockoutCheck \<Longrightarrow> \<not> e_allowed emailCheck \<Longrightarrow>
       result = (emailRateLimited emailCheck, st)"
    by (simp add: result_def ipCheck_def lockoutCheck_def emailCheck_def login_def Let_def)
  have c2: "allowed ipCheck \<Longrightarrow> \<not> locked lockoutCheck \<Longrightarrow> \<not> e_allowed emailCheck \<Longrightarrow>
       login ev2 st ip ua2 email pw2 now later nid2 = (emailRateLimited emailCheck, st)"
    by (simp add: ipCheck_def lockoutCheck_def emailCheck_def login_def Let_def)
  have d: "allowed ipCheck \<Longrightarrow> \<not> locked lockoutCheck \<Longrightarrow> e_allowed emailCheck \<Longrightarrow>
       result = login_credentials ev st ip ua e pw now nid"
    by (simp add: result_def ipCheck_def lockoutCheck_def emailCheck_def e_def login_def Let_def)
  show ?thesis
    using a a2 b b2 c c2 d by (simp add: response_defs)
qed

theorem login_guards_in_order_witness:
  "login ex_env ex_guarded ''1.2.3.4'' None ''a@x.com'' ''good'' 1000 1000 ''c'' =
     (ipRateLimited \<lparr>allowed = False, remainingSeconds = Some 59\<rparr>, ex_guarded) \<and>
   login ex_env ex_guarded ''5.6.7.8'' None ''a@x.com'' ''good'' 1000 1000 ''c'' =
     (accountLocked \<lparr>locked = True, remainingMinutes = Some 15,
                     lock_message = Some (MsgAccountLocked 15)\<rparr>, ex_guarded) \<and>
   login ex_env (ex_guarded\<lparr>db_user := [ex_user]\<rparr>) ''5.6.7.8'' None ''a@x.com'' ''good'' 1000 1000 ''c'' =
     (emailRateLimited \<lparr>e_allowed = False, e_message = Some MsgEmailRateLimit\<rparr>,
      ex_guarded\<lparr>db_user := [ex_user]\<rparr>) \<and>
   login ex_env ex_state ''5.6.7.8'' None ''a@x.com'' ''good'' 1000 1000 ''c'' =
     login_credentials ex_env ex_state ''5.6.7.8'' None ''a@x.com'' ''good'' 1000 ''c''"
proof -
  have ne: "normalizeEmail ''a@x.com'' = ''a@x.com''"
    by code_simp
  have i1: "checkIpRateLimit (loginAttempts ex_guarded) ''1.2.3.4'' 1000 =
              \<lparr>allowed = False, remainingSeconds = Some 59\<rparr>"
    by code_simp
  have i2: "checkIpRateLimit (loginAttempts ex_guarded) ''5.6.7.8'' 1000 =
              \<lparr>allowed = True, remainingSeconds = None\<rparr>"
    by code_simp
  have l2: "checkAccountLockout ex_guarded ''a@x.com'' 1000 1000 =
              \<lparr>locked = True, remainingMinutes = Some 15, lock_message = Some (MsgAccountLocked 15)\<rparr>"
    by code_simp
  have l3: "checkAccountLockout (ex_guarded\<lparr>db_user := [ex_user]\<rparr>) ''a@x.com'' 1000 1000 =
              \<lparr>locked = False, remainingMinutes = None, lock_message = None\<rparr>"
    by code_simp
  have e3: "checkEmailRateLimit (ex_guarded\<lparr>db_user := [ex_user]\<rparr>) ''a@x.com'' 1000 =
              \<lparr>e_allowed = False, e_message = Some MsgEmailRateLimit\<rparr>"
    by code_simp
  have i4: "checkIpRateLimit (loginAttempts ex_state) ''5.6.7.8'' 1000 =
              \<lparr>allowed = True, remainingSeconds = None\<rparr>"
    by code_simp
  have l4: "checkAccountLockout ex_state ''a@x.com'' 1000 1000 =
              \<lparr>locked = False, remainingMinutes = None, lock_message = None\<rparr>"
    by code_simp
  have e4: "checkEmailRateLimit ex_state ''a@x.com'' 1000 = \<lparr>e_allowed = True, e_message = None\<rparr>"
    by code_simp
  have "login ex_env ex_guarded ''1.2.3.4'' None ''a@x.com'' ''good'' 1000 1000 ''c'' =
     (ipRateLimited \<lparr>allowed = False, remainingSeconds = Some 59\<rparr>, ex_guarded)"
    using login_guards_in_order [where st = ex_guarded and ip = "''1.2.3.4''" and now = 1000 and later = 1000
        and ev = ex_env and ua = None and email = "''a@x.com''" and pw = "''good''" and nid = "''c''"]
    by (simp add: i1)
  moreover have "login ex_env ex_guarded ''5.6.7.8'' None ''a@x.com'' ''good'' 1000 1000 ''c'' =
     (accountLocked \<lparr>locked = True, remainingMinutes = Some 15,
                     lock_message = Some (MsgAccountLocked 15)\<rparr>, ex_guarded)"
    using login_guards_in_order [where st = ex_guarded and ip = "''5.6.7.8''" and now = 1000 and later = 1000
        and ev = ex_env and ua = None and email = "''a@x.com''" and pw = "''good''" and nid = "''c''"]
    by (simp add: i2 l2 ne)
  moreover have "login ex_env (ex_guarded\<lparr>db_user := [ex_user]\<rparr>) ''5.6.7.8'' None ''a@x.com'' ''good'' 1000 1000 ''c'' =
     (emailRateLimited \<lparr>e_allowed = False, e_message = Some MsgEmailRateLimit\<rparr>,
      ex_guarded\<lparr>db_user := [ex_user]\<rparr>)"
    using login_guards_in_order [where st = "ex_guarded\<lparr>db_user := [ex_user]\<rparr>" and ip = "''5.6.7.8''" and now = 1000
        and later = 1000 and ev = ex_env and ua = None and email = "''a@x.com''" and pw = "''good''" and nid = "''c''"]
      i2
    by (simp add: l3 e3 ne)
  moreover have "login ex_env ex_state ''5.6.7.8'' None ''a@x.com'' ''good'' 1000 1000 ''c'' =
     login_credentials ex_env ex_state ''5.6.7.8'' None ''a@x.com'' ''good'' 1000 ''c''"
    using login_guards_in_order [where st = ex_state and ip = "''5.6.7.8''" and now = 1000 and later = 1000
        and ev = ex_env and ua = None and email = "''a@x.com''" and pw = "''good''" and nid = "''c''"]
    by (simp add: i4 l4 e4 ne)
  ultimately show ?thesis by blast
qed

subsection \<open>Lookups and the ledger\<close>

lemma find_map_pres:
  assumes "\<And>x. P (f x) = P x"
  shows "find P (map f xs) = map_option f (find P xs)"
  using assms by (induction xs) auto

lemma find_SomeD: "find P xs = Some x \<Longrightarrow> P x"
  by (induction xs) (auto split: if_splits)

lemma countFailed_append_failed:
  "countFailed (ledger @ [\<lparr>la_email = e, la_ip = ip, la_userAgent = ua, la_success = False,
                           la_userId = uid, la_createdAt = now\<rparr>]) e now
     = countFailed ledger e now + 1"
  by (simp add: countFailed_def EMAIL_WINDOW_MS_def)

lemma findUser_lockUsers:
  "findUserByEmail (lockUsers us e t) e' =
     map_option (\<lambda>u. if u_email u = e then u\<lparr>u_lockedUntil := Some t\<rparr> else u) (findUserByEmail us e')"
  unfolding findUserByEmail_def lockUsers_def
  by (rule find_map_pres) simp

lemma findUser_email: "findUserByEmail us e = Some u \<Longrightarrow> u_email u = e"
  unfolding findUserByEmail_def by (rule find_SomeD)

lemma findUser_lockUsers_same:
  assumes "findUserByEmail us e = Some u"
  shows "findUserByEmail (lockUsers us e t) e = Some (u\<lparr>u_lockedUntil := Some t\<rparr>)"
  using assms findUser_email [OF assms] by (simp add: findUser_lockUsers)

lemma recordLoginAttempt_locks:
  assumes "LOCKOUT_THRESHOLD \<le> countFailed (db_loginAttempt st) e now + 1"
  shows "recordLoginAttempt st e ip ua False uid now =
           (True, st\<lparr>db_loginAttempt := db_loginAttempt st @
                        [\<lparr>la_email = e, la_ip = ip, la_userAgent = or_null ua, la_success = False,
                          la_userId = or_null uid, la_createdAt = now\<rparr>],
                     db_user := lockUsers (db_user st) e (now + LOCKOUT_DURATION_MS)\<rparr>)"
  using assms by (simp add: recordLoginAttempt_def Let_def countFailed_append_failed)

lemma ceil_div_ge1: "0 < a \<Longrightarrow> 0 < b \<Longrightarrow> 1 \<le> ceil_div a b"
  unfolding ceil_div_def
  by (smt (verit) div_neg_pos_less0 neg_0_less_iff_less)

subsection \<open>Failed credentials\<close>

text \<open>
  Claim C8, as stated: a failed login answers the same for an email nobody has registered
  and for a registered email with a wrong password. It fails on the code at the failure
  that brings the email's count to the lockout threshold: with nine failures in the ledger,
  a wrong password for the registered \<^verbatim>\<open>a@x.com\<close> is answered 423
  \<^verbatim>\<open>ACCOUNT_LOCKED\<close>, and the same request on a server where nobody has that
  email is answered 401 \<^verbatim>\<open>Invalid credentials\<close>.
\<close>

theorem account_enumeration_counterexample:
  "fst (login ex_env (ex_state\<lparr>db_loginAttempt := ex_failures 9 0\<rparr>)
          ''5.6.7.8'' None ''a@x.com'' ''bad'' 1000 1000 ''c'') =
     (reply 423)\<lparr>error := Some (MsgAccountNowLocked 15), code := Some ''ACCOUNT_LOCKED'',
                  retryAfter := Some 900\<rparr> \<and>
   fst (login ex_env (ex_state\<lparr>db_user := [], db_loginAttempt := ex_failures 9 0\<rparr>)
          ''5.6.7.8'' None ''a@x.com'' ''bad'' 1000 1000 ''c'') =
     (reply 401)\<lparr>error := Some MsgInvalidCredentials\<rparr>"
  by code_simp

lemma recordLoginAttempt_below:
  assumes "countFailed (db_loginAttempt st) e now + 1 < LOCKOUT_THRESHOLD"
  shows "fst (recordLoginAttempt st e ip ua False uid now) = False"
  using assms by (simp add: recordLoginAttempt_def Let_def countFailed_append_failed)

text \<open>
  Claim C8, amended: for every login that reaches credential verification and fails
  without bringing the email's failed attempts of the last hour to the lockout threshold,
  the answer for an email nobody has registered and the answer for a registered email with
  a wrong password are the same: status 401 with the generic \<^verbatim>\<open>Invalid credentials\<close>
  and nothing else.
\<close>

theorem invalid_credentials_same_response:
  fixes ev :: env and st1 st2 :: state and u :: user
    and ip email pw nid :: string and ua :: "string option" and now later :: int
  defines "e \<equiv> normalizeEmail email"
  assumes reach1: "allowed (checkIpRateLimit (loginAttempts st1) ip now)"
      "\<not> locked (checkAccountLockout st1 e now later)" "e_allowed (checkEmailRateLimit st1 e now)"
    and reach2: "allowed (checkIpRateLimit (loginAttempts st2) ip now)"
      "\<not> locked (checkAccountLockout st2 e now later)" "e_allowed (checkEmailRateLimit st2 e now)"
    and unknown: "findUserByEmail (db_user st1) e = None"
    and known: "findUserByEmail (db_user st2) e = Some u"
    and wrong: "\<not> bcrypt_compare ev pw (u_passwordHash u)"
    and below: "countFailed (db_loginAttempt st2) e now + 1 < LOCKOUT_THRESHOLD"
  shows "fst (login ev st1 ip ua email pw now later nid) = (reply 401)\<lparr>error := Some MsgInvalidCredentials\<rparr> \<and>
         fst (login ev st2 ip ua email pw now later nid) = fst (login ev st1 ip ua email pw now later nid)"
proof -
  have "login ev st1 ip ua email pw now later nid = login_credentials ev st1 ip ua e pw now nid"
    using reach1 by (simp add: login_def Let_def e_def)
  then have r1: "fst (login ev st1 ip ua email pw now later nid) = invalidCredentials"
    using unknown by (simp add: login_credentials_def Let_def split: prod.splits)
  let ?st = "st2\<lparr>loginAttempts := recordIpAttempt (loginAttempts st2) ip now\<rparr>"
  have "countFailed (db_loginAttempt ?st) e now + 1 < LOCKOUT_THRESHOLD"
    using below by simp
  then have nl: "fst (recordLoginAttempt ?st e ip ua False (Some (u_id u)) now) = False"
    by (rule recordLoginAttempt_below)
  have "login ev st2 ip ua email pw now later nid = login_credentials ev st2 ip ua e pw now nid"
    using reach2 by (simp add: login_def Let_def e_def)
  then have r2: "fst (login ev st2 ip ua email pw now later nid) = invalidCredentials"
    using known wrong nl by (simp add: login_credentials_def Let_def split: prod.splits)
  from r1 r2 show ?thesis
    by (simp add: invalidCredentials_def)
qed

theorem invalid_credentials_same_response_witness:
  "fst (login ex_env (ex_state\<lparr>db_user := []\<rparr>) ''5.6.7.8'' None ''a@x.com'' ''bad'' 1000 1000 ''c'') =
     (reply 401)\<lparr>error := Some MsgInvalidCredentials\<rparr> \<and>
   fst (login ex_env ex_state ''5.6.7.8'' None ''a@x.com'' ''bad'' 1000 1000 ''c'') =
     fst (login ex_env (ex_state\<lparr>db_user := []\<rparr>) ''5.6.7.8'' None ''a@x.com'' ''bad'' 1000 1000 ''c'')"
proof -
  let ?s1 = "ex_state\<lparr>db_user := []\<rparr>"
  have ne: "normalizeEmail ''a@x.com'' = ''a@x.com''"
    by code_simp
  have i1: "allowed (checkIpRateLimit (loginAttempts ?s1) ''5.6.7.8'' 1000)"
    by code_simp
  have l1: "\<not> locked (checkAccountLockout ?s1 ''a@x.com'' 1000 1000)"
    by code_simp
  have e1: "e_allowed (checkEmailRateLimit ?s1 ''a@x.com'' 1000)"
    by code_simp
  have i2: "allowed (checkIpRateLimit (loginAttempts ex_state) ''5.6.7.8'' 1000)"
    by code_simp
  have l2: "\<not> locked (checkAccountLockout ex_state ''a@x.com'' 1000 1000)"
    by code_simp
  have e2: "e_allowed (checkEmailRateLimit ex_state ''a@x.com'' 1000)"
    by code_simp
  have unknown: "findUserByEmail (db_user ?s1) ''a@x.com'' = None"
    by (simp add: findUserByEmail_def)
  have known: "findUserByEmail (db_user ex_state) ''a@x.com'' = Some ex_user"
    by (simp add: findUserByEmail_def ex_state_def ex_user_def)
  have wrong: "\<not> bcrypt_compare ex_env ''bad'' (u_passwordHash ex_user)"
    by (simp add: ex_env_def)
  have below: "countFailed (db_loginAttempt ex_state) ''a@x.com'' 1000 + 1 < LOCKOUT_THRESHOLD"
    by code_simp
  show ?thesis
    using invalid_credentials_same_response [where email = "''a@x.com''", unfolded ne,
        OF i1 l1 e1 i2 l2 e2 unknown known wrong below]
    by blast
qed

subsection \<open>The first factor of a TOTP account\<close>

lemma find_append:
  "find P (xs @ ys) = (case find P xs of None \<Rightarrow> find P ys | Some x \<Rightarrow> Some x)"
  by (induction xs) auto

lemma find_filter_None: "find P xs = None \<Longrightarrow> find P (filter Q xs) = None"
  by (auto simp: find_None_iff)

lemma login_credentials_totp_no_cookie:
  assumes "findUserByEmail (db_user st) e = Some u" "u_totpEnabled u" "truthy (u_totpSecret u)"
  shows "cookie (fst (login_credentials ev st ip ua e pw now nid)) = None"
  using assms
  by (simp add: login_credentials_def Let_def response_defs split: prod.splits)

lemma login_guard_no_cookie:
  "cookie (ipRateLimited a) = None" "cookie (accountLocked b) = None" "cookie (emailRateLimited c) = None"
  by (simp_all add: response_defs)

text \<open>
  Claim C4. For an account with TOTP enabled and a secret stored, a login never sets the
  session cookie, whatever the guards and the comparison say. When the guards let it
  through and the password is right, it stores a challenge that expires 120 seconds after
  the clock reading at which it is created and has not been used, and the answer carries
  the challenge's key and expiry and the user, and no cookie. (The key is the one the
  database gives the new row, one that no stored challenge has.)
\<close>

theorem totp_login_issues_challenge_only:
  fixes ev :: env and st :: state and u :: user
    and ip email pw nid :: string and ua :: "string option" and now later :: int
  defines "e \<equiv> normalizeEmail email"
    and "result \<equiv> login ev st ip ua email pw now later nid"
  assumes account: "findUserByEmail (db_user st) e = Some u"
    and enabled: "u_totpEnabled u"
    and secret: "truthy (u_totpSecret u)"
  shows
   "cookie (fst result) = None \<and>
    (allowed (checkIpRateLimit (loginAttempts st) ip now) \<and>
     \<not> locked (checkAccountLockout st e now later) \<and>
     e_allowed (checkEmailRateLimit st e now) \<and>
     bcrypt_compare ev pw (u_passwordHash u) \<and>
     findChallenge (db_loginChallenge st) nid = None \<longrightarrow>
       fst result = (reply 200)\<lparr>totpRequired := Some True, challengeId := Some nid,
                                 expiresAt := Some (now + 120 * 1000),
                                 body_user := Some (public u)\<rparr> \<and>
       findChallenge (db_loginChallenge (snd result)) nid =
         Some \<lparr>ch_id = nid, ch_userId = u_id u, ch_expiresAt = now + 120 * 1000, ch_usedAt = None\<rparr>)"
proof -
  have nocookie: "cookie (fst result) = None"
    using login_credentials_totp_no_cookie [OF account [unfolded e_def] enabled secret]
    by (simp add: result_def login_def Let_def login_guard_no_cookie)
  have created: "fst result = (reply 200)\<lparr>totpRequired := Some True, challengeId := Some nid,
                                 expiresAt := Some (now + 120 * 1000),
                                 body_user := Some (public u)\<rparr> \<and>
       findChallenge (db_loginChallenge (snd result)) nid =
         Some \<lparr>ch_id = nid, ch_userId = u_id u, ch_expiresAt = now + 120 * 1000, ch_usedAt = None\<rparr>"
    if guards: "allowed (checkIpRateLimit (loginAttempts st) ip now)"
        "\<not> locked (checkAccountLockout st e now later)" "e_allowed (checkEmailRateLimit st e now)"
      and ok: "bcrypt_compare ev pw (u_passwordHash u)"
      and fresh: "findChallenge (db_loginChallenge st) nid = None"
  proof -
    have "result = login_credentials ev st ip ua e pw now nid"
      using guards by (simp add: result_def login_def Let_def e_def)
    moreover have "findChallenge (purgeChallenges (db_loginChallenge st) (u_id u) now) nid = None"
      using fresh unfolding findChallenge_def purgeChallenges_def by (rule find_filter_None)
    ultimately show ?thesis
      using account enabled secret ok
      by (simp add: login_credentials_def Let_def findChallenge_def find_append)
  qed
  from nocookie created show ?thesis by blast
qed

theorem totp_login_issues_challenge_only_witness:
  "fst (login ex_env ex_totp ''5.6.7.8'' None ''a@x.com'' ''good'' 1000 1000 ''c1'') =
     (reply 200)\<lparr>totpRequired := Some True, challengeId := Some ''c1'',
                  expiresAt := Some 121000,
                  body_user := Some \<lparr>pu_id = ''u1'', pu_email = ''a@x.com'', pu_name = ''A''\<rparr>\<rparr> \<and>
   findChallenge (db_loginChallenge
       (snd (login ex_env ex_totp ''5.6.7.8'' None ''a@x.com'' ''good'' 1000 1000 ''c1''))) ''c1'' =
     Some \<lparr>ch_id = ''c1'', ch_userId = ''u1'', ch_expiresAt = 121000, ch_usedAt = None\<rparr>"
proof -
  have ne: "normalizeEmail ''a@x.com'' = ''a@x.com''"
    by code_simp
  have account: "findUserByEmail (db_user ex_totp) ''a@x.com'' = Some ex_totp_user"
    by (simp add: findUserByEmail_def ex_totp_def ex_totp_user_def ex_user_def)
  have enabled: "u_totpEnabled ex_totp_user"
    by (simp add: ex_totp_user_def)
  have secret: "truthy (u_totpSecret ex_totp_user)"
    by (simp add: ex_totp_user_def truthy_def)
  have i: "allowed (checkIpRateLimit (loginAttempts ex_totp) ''5.6.7.8'' 1000)"
    by code_simp
  have l: "\<not> locked (checkAccountLockout ex_totp ''a@x.com'' 1000 1000)"
    by code_simp
  have m: "e_allowed (checkEmailRateLimit ex_totp ''a@x.com'' 1000)"
    by code_simp
  have ok: "bcrypt_compare ex_env ''good'' (u_passwordHash ex_totp_user)"
    by (simp add: ex_env_def ex_totp_user_def ex_user_def)
  have fresh: "findChallenge (db_loginChallenge ex_totp) ''c1'' = None"
    by (simp add: findChallenge_def ex_totp_def ex_state_def)
  show ?thesis
    using totp_login_issues_challenge_only [where email = "''a@x.com''", unfolded ne,
        OF account enabled secret, where ev = ex_env and ip = "''5.6.7.8''" and ua = None
        and pw = "''good''" and now = 1000 and later = 1000 and nid = "''c1''"]
      i l m ok fresh
    by (simp add: public_def ex_totp_user_def ex_user_def)
qed

subsection \<open>The second factor\<close>

lemma findUserById_id: "findUserById us i = Some u \<Longrightarrow> u_id u = i"
  unfolding findUserById_def by (rule find_SomeD)

lemma findChallenge_id: "findChallenge cs i = Some c \<Longrightarrow> ch_id c = i"
  unfolding findChallenge_def by (rule find_SomeD)

lemma findUserById_unlockUsers:
  "findUserById (unlockUsers us e) i =
     map_option (\<lambda>u. if u_email u = e \<and> u_lockedUntil u \<noteq> None then u\<lparr>u_lockedUntil := None\<rparr> else u)
       (findUserById us i)"
  unfolding findUserById_def unlockUsers_def
  by (rule find_map_pres) simp

lemma findUserById_touchLastLogin:
  "findUserById (touchLastLogin us j now) i =
     map_option (\<lambda>u. if u_id u = j then u\<lparr>u_lastLoginAt := Some now\<rparr> else u) (findUserById us i)"
  unfolding findUserById_def touchLastLogin_def
  by (rule find_map_pres) simp

lemma findChallenge_markUsed:
  "findChallenge (markUsed cs j now) i =
     map_option (\<lambda>c. if ch_id c = j then c\<lparr>ch_usedAt := Some now\<rparr> else c) (findChallenge cs i)"
  unfolding findChallenge_def markUsed_def
  by (rule find_map_pres) simp

text \<open>What the handler does from the update on, when the rows it updates exist.\<close>

lemma loginTotp_commit_done:
  assumes "findChallenge (db_loginChallenge st) (ch_id ch) \<noteq> None"
    and "findUserById (db_user st) (u_id u) \<noteq> None"
  shows "loginTotp_commit ev st ip ua ch u now =
           ((reply 200)\<lparr>cookie := Some (jwt_sign ev (u_id u) now), body_user := Some (public u)\<rparr>,
            st\<lparr>db_loginChallenge := markUsed (db_loginChallenge st) (ch_id ch) now,
               db_loginAttempt := db_loginAttempt st @
                 [\<lparr>la_email = u_email u, la_ip = ip, la_userAgent = or_null ua, la_success = True,
                   la_userId = or_null (Some (u_id u)), la_createdAt = now\<rparr>],
               db_user := touchLastLogin (unlockUsers (db_user st) (u_email u)) (u_id u) now,
               loginAttempts := clearIpAttempts (loginAttempts st) ip\<rparr>)"
  using assms
  by (auto simp: loginTotp_commit_def recordLoginAttempt_def Let_def findUserById_unlockUsers)

lemma loginTotp_check_pass:
  assumes "findChallenge (db_loginChallenge st) cid = Some ch" "ch_usedAt ch = None"
    and "now < ch_expiresAt ch"
    and "findUserById (db_user st) (ch_userId ch) = Some u"
    and "u_totpEnabled u" "u_totpSecret u = Some secret" "secret \<noteq> []"
    and "totp_verify ev totpCode secret now"
  shows "loginTotp_check ev st ip ua cid totpCode now = Inr (ch, u)"
  using assms by (simp add: loginTotp_check_def truthy_def)

text \<open>
  Claim C10: the second-factor handler consults none of the login guards. For a challenge
  that is stored, unused and unexpired, whose owner has TOTP enabled and a secret, a
  correct code is answered with the session cookie and marks the challenge used. Nothing
  is asked of the IP tracker, the ledger or the owner's lockout expiry, and the answer is
  the same whatever the tracker and the ledger hold. (The witness runs it in a state in
  which each of the three guards rejects a login.)
\<close>

theorem totp_verification_skips_guards:
  assumes challenge: "findChallenge (db_loginChallenge st) cid = Some ch"
    and unused: "ch_usedAt ch = None"
    and unexpired: "now < ch_expiresAt ch"
    and owner: "findUserById (db_user st) (ch_userId ch) = Some u"
    and enabled: "u_totpEnabled u"
    and secret: "u_totpSecret u = Some s" "s \<noteq> []"
    and correct: "totp_verify ev totpCode s now"
  shows "fst (loginTotp ev st ip ua cid totpCode now) =
           (reply 200)\<lparr>cookie := Some (jwt_sign ev (u_id u) now), body_user := Some (public u)\<rparr> \<and>
         findChallenge (db_loginChallenge (snd (loginTotp ev st ip ua cid totpCode now))) cid =
           Some (ch\<lparr>ch_usedAt := Some now\<rparr>) \<and>
         fst (loginTotp ev (st\<lparr>loginAttempts := m, db_loginAttempt := ledger\<rparr>) ip ua cid totpCode now) =
           fst (loginTotp ev st ip ua cid totpCode now)"
proof -
  have c: "findChallenge (db_loginChallenge st) (ch_id ch) \<noteq> None"
    using challenge findChallenge_id [OF challenge] by simp
  have o: "findUserById (db_user st) (u_id u) \<noteq> None"
    using owner findUserById_id [OF owner] by simp
  have run: "loginTotp ev st ip ua cid totpCode now = loginTotp_commit ev st ip ua ch u now"
    using loginTotp_check_pass [OF challenge unused unexpired owner enabled secret correct]
    by (simp add: loginTotp_def)
  let ?st2 = "st\<lparr>loginAttempts := m, db_loginAttempt := ledger\<rparr>"
  have run2: "loginTotp ev ?st2 ip ua cid totpCode now = loginTotp_commit ev ?st2 ip ua ch u now"
    using loginTotp_check_pass [where st = ?st2, OF _ unused unexpired _ enabled secret correct]
      challenge owner
    by (simp add: loginTotp_def)
  show ?thesis
    using c o challenge findChallenge_id [OF challenge]
    by (simp add: run run2 loginTotp_commit_done findChallenge_markUsed)
qed

theorem totp_verification_skips_guards_witness:
  "\<not> allowed (checkIpRateLimit (loginAttempts ex_guarded_totp) ''1.2.3.4'' 1000) \<and>
   locked (checkAccountLockout ex_guarded_totp ''a@x.com'' 1000 1000) \<and>
   \<not> e_allowed (checkEmailRateLimit ex_guarded_totp ''a@x.com'' 1000) \<and>
   fst (loginTotp ex_env ex_guarded_totp ''1.2.3.4'' None ''c1'' ''123456'' 1000) =
     (reply 200)\<lparr>cookie := Some ''jwt:u1'',
                  body_user := Some \<lparr>pu_id = ''u1'', pu_email = ''a@x.com'', pu_name = ''A''\<rparr>\<rparr> \<and>
   findChallenge (db_loginChallenge
       (snd (loginTotp ex_env ex_guarded_totp ''1.2.3.4'' None ''c1'' ''123456'' 1000))) ''c1'' =
     Some \<lparr>ch_id = ''c1'', ch_userId = ''u1'', ch_expiresAt = 121000, ch_usedAt = Some 1000\<rparr>"
proof -
  let ?ch = "\<lparr>ch_id = ''c1'', ch_userId = ''u1'', ch_expiresAt = 121000, ch_usedAt = None\<rparr>"
  let ?u = "ex_totp_user\<lparr>u_lockedUntil := Some 900000\<rparr>"
  have g1: "\<not> allowed (checkIpRateLimit (loginAttempts ex_guarded_totp) ''1.2.3.4'' 1000)"
    by code_simp
  have g2: "locked (checkAccountLockout ex_guarded_totp ''a@x.com'' 1000 1000)"
    by code_simp
  have g3: "\<not> e_allowed (checkEmailRateLimit ex_guarded_totp ''a@x.com'' 1000)"
    by code_simp
  have challenge: "findChallenge (db_loginChallenge ex_guarded_totp) ''c1'' = Some ?ch"
    by (simp add: findChallenge_def ex_guarded_totp_def)
  have owner: "findUserById (db_user ex_guarded_totp) (ch_userId ?ch) = Some ?u"
    by (simp add: findUserById_def ex_guarded_totp_def ex_totp_user_def ex_user_def)
  have enabled: "u_totpEnabled ?u"
    by (simp add: ex_totp_user_def)
  have secret: "u_totpSecret ?u = Some ''SECRET''" "''SECRET'' \<noteq> []"
    by (simp_all add: ex_totp_user_def)
  have correct: "totp_verify ex_env ''123456'' ''SECRET'' 1000"
    by (simp add: ex_env_def)
  from totp_verification_skips_guards [OF challenge _ _ owner enabled secret correct,
      where ip = "''1.2.3.4''" and ua = None]
  have "fst (loginTotp ex_env ex_guarded_totp ''1.2.3.4'' None ''c1'' ''123456'' 1000) =
     (reply 200)\<lparr>cookie := Some ''jwt:u1'',
                  body_user := Some \<lparr>pu_id = ''u1'', pu_email = ''a@x.com'', pu_name = ''A''\<rparr>\<rparr> \<and>
   findChallenge (db_loginChallenge
       (snd (loginTotp ex_env ex_guarded_totp ''1.2.3.4'' None ''c1'' ''123456'' 1000))) ''c1'' =
     Some \<lparr>ch_id = ''c1'', ch_userId = ''u1'', ch_expiresAt = 121000, ch_usedAt = Some 1000\<rparr>"
    by (simp add: ex_env_def public_def ex_totp_user_def ex_user_def)
  with g1 g2 g3 show ?thesis by blast
qed

subsection \<open>Lockout\<close>

lemma findUserById_lockUsers:
  "findUserById (lockUsers us e t) i =
     map_option (\<lambda>u. if u_email u = e then u\<lparr>u_lockedUntil := Some t\<rparr> else u) (findUserById us i)"
  unfolding findUserById_def lockUsers_def
  by (rule find_map_pres) simp

text \<open>A wrong second-factor code is recorded as a failed attempt, and answered as a wrong code.\<close>

lemma loginTotp_wrong_code:
  assumes "findChallenge (db_loginChallenge st) cid = Some ch" "ch_usedAt ch = None"
    and "now < ch_expiresAt ch"
    and "findUserById (db_user st) (ch_userId ch) = Some owner"
    and "u_totpEnabled owner" "u_totpSecret owner = Some s" "s \<noteq> []"
    and "\<not> totp_verify ev totpCode s now"
  shows "loginTotp ev st ip ua cid totpCode now =
           ((reply 401)\<lparr>error := Some MsgInvalidTotp, code := Some ''INVALID_TOTP''\<rparr>,
            snd (recordLoginAttempt (st\<lparr>loginAttempts := recordIpAttempt (loginAttempts st) ip now\<rparr>)
                   (u_email owner) ip ua False (Some (u_id owner)) now))"
  using assms
  by (simp add: loginTotp_def loginTotp_check_def truthy_def Let_def split: prod.splits)

text \<open>
  Claim C3, as stated: the failed attempt that brings the count for an email to the
  threshold sets the lockout expiry, and its response says that the account is now locked.
  It fails on the code for a failed second-factor attempt: the handler records it with
  \<open>recordLoginAttempt\<close>, which sets the lockout expiry, and answers 401
  \<^verbatim>\<open>INVALID_TOTP\<close> whatever \<open>recordLoginAttempt\<close> returns. With nine failures in the
  ledger, a wrong code for the open challenge \<^verbatim>\<open>c1\<close> at time 2000 locks the account
  until 902000 and is answered as a wrong code.
\<close>

theorem totp_failure_lock_not_signalled_counterexample:
  "fst (loginTotp ex_env (ex_challenged\<lparr>db_loginAttempt := ex_failures 9 0\<rparr>)
          ''1.2.3.4'' None ''c1'' ''000000'' 2000) =
     (reply 401)\<lparr>error := Some MsgInvalidTotp, code := Some ''INVALID_TOTP''\<rparr> \<and>
   findUserById
     (db_user (snd (loginTotp ex_env (ex_challenged\<lparr>db_loginAttempt := ex_failures 9 0\<rparr>)
                      ''1.2.3.4'' None ''c1'' ''000000'' 2000))) ''u1'' =
     Some (ex_totp_user\<lparr>u_lockedUntil := Some 902000\<rparr>)"
  by code_simp

text \<open>
  Claim C3, amended. For an account \<open>u\<close> registered under the normalised email:
  \<^item> when the failure being recorded brings the number of failed attempts for the email
    in the last hour to the threshold of 10 (or beyond), \<open>recordLoginAttempt\<close> reports
    that the account is now locked and sets the lockout expiry to \<open>now\<close> plus 15 minutes;
  \<^item> a login that passed the guards and whose password is wrong is then answered 423
    \<^verbatim>\<open>ACCOUNT_LOCKED\<close>, with the expiry set the same way;
  \<^item> a wrong second-factor code that brings the count of its account (\<open>owner\<close>) to the
    threshold sets the expiry the same way (what it is answered is not part of the
    statement);
  \<^item> while the lockout expiry \<open>t\<close> is set and after the guard's first clock reading, the
    guard reports locked with the minutes that remain at its second reading \<open>later\<close>,
    rounded up (at least one while \<open>later\<close> is before \<open>t\<close>), and every login for the
    email is rejected with the state untouched, whatever the password and the comparison
    function: with 423 and those minutes, unless the IP guard, which runs first, has
    rejected it already.
\<close>

theorem lockout_set_and_enforced:
  fixes ev :: env and st :: state and u owner :: user and ch :: loginChallenge
    and ip email pw nid cid totpCode s :: string
    and ua uid :: "string option" and now later t :: int
  defines "e \<equiv> normalizeEmail email"
    and "mins \<equiv> ceil_div (t - later) 60000"
  assumes account: "findUserByEmail (db_user st) e = Some u"
  shows
   "(LOCKOUT_THRESHOLD \<le> countFailed (db_loginAttempt st) e now + 1 \<longrightarrow>
       fst (recordLoginAttempt st e ip ua False uid now) \<and>
       findUserByEmail (db_user (snd (recordLoginAttempt st e ip ua False uid now))) e =
         Some (u\<lparr>u_lockedUntil := Some (now + 15 * 60 * 1000)\<rparr>)) \<and>
    (LOCKOUT_THRESHOLD \<le> countFailed (db_loginAttempt st) e now + 1 \<and>
     allowed (checkIpRateLimit (loginAttempts st) ip now) \<and>
     \<not> locked (checkAccountLockout st e now later) \<and>
     e_allowed (checkEmailRateLimit st e now) \<and>
     \<not> bcrypt_compare ev pw (u_passwordHash u) \<longrightarrow>
       fst (login ev st ip ua email pw now later nid) =
         (reply 423)\<lparr>error := Some (MsgAccountNowLocked 15), code := Some ''ACCOUNT_LOCKED'',
                      retryAfter := Some 900\<rparr> \<and>
       findUserByEmail (db_user (snd (login ev st ip ua email pw now later nid))) e =
         Some (u\<lparr>u_lockedUntil := Some (now + 15 * 60 * 1000)\<rparr>)) \<and>
    (LOCKOUT_THRESHOLD \<le> countFailed (db_loginAttempt st) (u_email owner) now + 1 \<and>
     findChallenge (db_loginChallenge st) cid = Some ch \<and> ch_usedAt ch = None \<and>
     now < ch_expiresAt ch \<and>
     findUserById (db_user st) (ch_userId ch) = Some owner \<and>
     u_totpEnabled owner \<and> u_totpSecret owner = Some s \<and> s \<noteq> [] \<and>
     \<not> totp_verify ev totpCode s now \<longrightarrow>
       findUserById (db_user (snd (loginTotp ev st ip ua cid totpCode now))) (u_id owner) =
         Some (owner\<lparr>u_lockedUntil := Some (now + 15 * 60 * 1000)\<rparr>)) \<and>
    (u_lockedUntil u = Some t \<and> now < t \<longrightarrow>
       checkAccountLockout st e now later =
         \<lparr>locked = True, remainingMinutes = Some mins, lock_message = Some (MsgAccountLocked mins)\<rparr> \<and>
       (later < t \<longrightarrow> 1 \<le> mins) \<and>
       login ev st ip ua email pw now later nid =
         (if allowed (checkIpRateLimit (loginAttempts st) ip now)
          then (reply 423)\<lparr>error := Some (MsgAccountLocked mins), code := Some ''ACCOUNT_LOCKED'',
                            retryAfter := Some (mins * 60)\<rparr>
          else ipRateLimited (checkIpRateLimit (loginAttempts st) ip now), st))"
proof -
  let ?rec = "recordLoginAttempt st e ip ua False uid now"
  have A: "fst ?rec \<and> findUserByEmail (db_user (snd ?rec)) e =
             Some (u\<lparr>u_lockedUntil := Some (now + 15 * 60 * 1000)\<rparr>)"
    if "LOCKOUT_THRESHOLD \<le> countFailed (db_loginAttempt st) e now + 1"
    using that account
    by (simp add: recordLoginAttempt_locks findUser_lockUsers_same LOCKOUT_DURATION_MS_def)
  have B: "fst (login ev st ip ua email pw now later nid) =
         (reply 423)\<lparr>error := Some (MsgAccountNowLocked 15), code := Some ''ACCOUNT_LOCKED'',
                      retryAfter := Some 900\<rparr> \<and>
       findUserByEmail (db_user (snd (login ev st ip ua email pw now later nid))) e =
         Some (u\<lparr>u_lockedUntil := Some (now + 15 * 60 * 1000)\<rparr>)"
    if "LOCKOUT_THRESHOLD \<le> countFailed (db_loginAttempt st) e now + 1"
      and "allowed (checkIpRateLimit (loginAttempts st) ip now)"
      and "\<not> locked (checkAccountLockout st e now later)"
      and "e_allowed (checkEmailRateLimit st e now)"
      and "\<not> bcrypt_compare ev pw (u_passwordHash u)"
  proof -
    let ?st1 = "st\<lparr>loginAttempts := recordIpAttempt (loginAttempts st) ip now\<rparr>"
    have th: "LOCKOUT_THRESHOLD \<le> countFailed (db_loginAttempt ?st1) e now + 1"
      using that(1) by simp
    have "login ev st ip ua email pw now later nid = login_credentials ev st ip ua e pw now nid"
      using that by (simp add: login_def Let_def e_def)
    also have "\<dots> = (accountNowLocked, snd (recordLoginAttempt ?st1 e ip ua False (Some (u_id u)) now))"
      using that(5) account recordLoginAttempt_locks [OF th]
      by (simp add: login_credentials_def Let_def)
    finally have eq: "login ev st ip ua email pw now later nid =
        (accountNowLocked, snd (recordLoginAttempt ?st1 e ip ua False (Some (u_id u)) now))" .
    have "findUserByEmail (db_user (snd (recordLoginAttempt ?st1 e ip ua False (Some (u_id u)) now))) e =
         Some (u\<lparr>u_lockedUntil := Some (now + 15 * 60 * 1000)\<rparr>)"
      using account
      by (simp add: recordLoginAttempt_locks [OF th] findUser_lockUsers_same LOCKOUT_DURATION_MS_def)
    with eq show ?thesis
      by (simp add: accountNowLocked_def LOCKOUT_DURATION_MS_def)
  qed
  have T: "findUserById (db_user (snd (loginTotp ev st ip ua cid totpCode now))) (u_id owner) =
         Some (owner\<lparr>u_lockedUntil := Some (now + 15 * 60 * 1000)\<rparr>)"
    if reach: "LOCKOUT_THRESHOLD \<le> countFailed (db_loginAttempt st) (u_email owner) now + 1"
      and challenge: "findChallenge (db_loginChallenge st) cid = Some ch" "ch_usedAt ch = None"
        "now < ch_expiresAt ch"
      and own: "findUserById (db_user st) (ch_userId ch) = Some owner"
      and secret: "u_totpEnabled owner" "u_totpSecret owner = Some s" "s \<noteq> []"
      and wrong: "\<not> totp_verify ev totpCode s now"
  proof -
    let ?st1 = "st\<lparr>loginAttempts := recordIpAttempt (loginAttempts st) ip now\<rparr>"
    have th: "LOCKOUT_THRESHOLD \<le> countFailed (db_loginAttempt ?st1) (u_email owner) now + 1"
      using reach by simp
    have idu: "u_id owner = ch_userId ch"
      using own by (rule findUserById_id)
    show ?thesis
      using own idu
      by (simp add: loginTotp_wrong_code [OF challenge own secret wrong]
          recordLoginAttempt_locks [OF th] findUserById_lockUsers LOCKOUT_DURATION_MS_def)
  qed
  have C: "checkAccountLockout st e now later =
         \<lparr>locked = True, remainingMinutes = Some mins, lock_message = Some (MsgAccountLocked mins)\<rparr> \<and>
       (later < t \<longrightarrow> 1 \<le> mins) \<and>
       login ev st ip ua email pw now later nid =
         (if allowed (checkIpRateLimit (loginAttempts st) ip now)
          then (reply 423)\<lparr>error := Some (MsgAccountLocked mins), code := Some ''ACCOUNT_LOCKED'',
                            retryAfter := Some (mins * 60)\<rparr>
          else ipRateLimited (checkIpRateLimit (loginAttempts st) ip now), st)"
    if t: "u_lockedUntil u = Some t" "now < t"
  proof -
    have chk: "checkAccountLockout st e now later =
         \<lparr>locked = True, remainingMinutes = Some mins, lock_message = Some (MsgAccountLocked mins)\<rparr>"
      using account t by (simp add: checkAccountLockout_def mins_def Let_def)
    have "later < t \<longrightarrow> 1 \<le> mins"
      by (simp add: mins_def ceil_div_ge1)
    moreover have "login ev st ip ua email pw now later nid =
         (if allowed (checkIpRateLimit (loginAttempts st) ip now)
          then (reply 423)\<lparr>error := Some (MsgAccountLocked mins), code := Some ''ACCOUNT_LOCKED'',
                            retryAfter := Some (mins * 60)\<rparr>
          else ipRateLimited (checkIpRateLimit (loginAttempts st) ip now), st)"
      using chk by (simp add: login_def Let_def e_def [symmetric] accountLocked_def)
    ultimately show ?thesis using chk by simp
  qed
  from A B T C show ?thesis by blast
qed


theorem lockout_set_and_enforced_witness:
  "fst (login ex_env (ex_state\<lparr>db_loginAttempt := ex_failures 9 0\<rparr>)
          ''5.6.7.8'' None ''a@x.com'' ''bad'' 1000 1000 ''c'') =
     (reply 423)\<lparr>error := Some (MsgAccountNowLocked 15), code := Some ''ACCOUNT_LOCKED'',
                  retryAfter := Some 900\<rparr> \<and>
   findUserByEmail
     (db_user (snd (login ex_env (ex_state\<lparr>db_loginAttempt := ex_failures 9 0\<rparr>)
                      ''5.6.7.8'' None ''a@x.com'' ''bad'' 1000 1000 ''c''))) ''a@x.com'' =
     Some (ex_user\<lparr>u_lockedUntil := Some 901000\<rparr>) \<and>
   findUserById
     (db_user (snd (loginTotp ex_env (ex_challenged\<lparr>db_loginAttempt := ex_failures 9 0\<rparr>)
                      ''1.2.3.4'' None ''c1'' ''000000'' 2000))) ''u1'' =
     Some (ex_totp_user\<lparr>u_lockedUntil := Some 902000\<rparr>) \<and>
   login ex_env ex_guarded ''5.6.7.8'' None ''a@x.com'' ''good'' 1000 1200 ''c'' =
     ((reply 423)\<lparr>error := Some (MsgAccountLocked 15), code := Some ''ACCOUNT_LOCKED'',
                   retryAfter := Some 900\<rparr>, ex_guarded) \<and>
   login ex_env ex_guarded ''5.6.7.8'' None ''a@x.com'' ''good'' 899999 900001 ''c'' =
     ((reply 423)\<lparr>error := Some (MsgAccountLocked 0), code := Some ''ACCOUNT_LOCKED'',
                   retryAfter := Some 0\<rparr>, ex_guarded)"
proof -
  let ?s9 = "ex_state\<lparr>db_loginAttempt := ex_failures 9 0\<rparr>"
  let ?c9 = "ex_challenged\<lparr>db_loginAttempt := ex_failures 9 0\<rparr>"
  let ?ch = "\<lparr>ch_id = ''c1'', ch_userId = ''u1'', ch_expiresAt = 121000, ch_usedAt = None\<rparr>"
  let ?lu = "ex_user\<lparr>u_lockedUntil := Some 900000\<rparr>"
  have ne: "normalizeEmail ''a@x.com'' = ''a@x.com''"
    by code_simp
  have acc9: "findUserByEmail (db_user ?s9) ''a@x.com'' = Some ex_user"
    by (simp add: findUserByEmail_def ex_state_def ex_user_def)
  have th9: "LOCKOUT_THRESHOLD \<le> countFailed (db_loginAttempt ?s9) ''a@x.com'' 1000 + 1"
    by code_simp
  have ip9: "allowed (checkIpRateLimit (loginAttempts ?s9) ''5.6.7.8'' 1000)"
    by code_simp
  have lk9: "\<not> locked (checkAccountLockout ?s9 ''a@x.com'' 1000 1000)"
    by code_simp
  have em9: "e_allowed (checkEmailRateLimit ?s9 ''a@x.com'' 1000)"
    by code_simp
  have pw9: "\<not> bcrypt_compare ex_env ''bad'' (u_passwordHash ex_user)"
    by (simp add: ex_env_def)
  from lockout_set_and_enforced [where st = ?s9 and email = "''a@x.com''" and u = ex_user
      and ev = ex_env and ip = "''5.6.7.8''" and ua = None and pw = "''bad''" and now = 1000
      and later = 1000 and nid = "''c''", unfolded ne, OF acc9] th9 ip9 lk9 em9 pw9
  have one: "fst (login ex_env ?s9 ''5.6.7.8'' None ''a@x.com'' ''bad'' 1000 1000 ''c'') =
       (reply 423)\<lparr>error := Some (MsgAccountNowLocked 15), code := Some ''ACCOUNT_LOCKED'',
                    retryAfter := Some 900\<rparr> \<and>
     findUserByEmail (db_user (snd (login ex_env ?s9 ''5.6.7.8'' None ''a@x.com'' ''bad'' 1000 1000 ''c'')))
       ''a@x.com'' = Some (ex_user\<lparr>u_lockedUntil := Some 901000\<rparr>)"
    by simp
  have accT: "findUserByEmail (db_user ?c9) ''a@x.com'' = Some ex_totp_user"
    by (simp add: findUserByEmail_def ex_challenged_def ex_totp_def ex_totp_user_def ex_user_def)
  have thT: "LOCKOUT_THRESHOLD \<le> countFailed (db_loginAttempt ?c9) (u_email ex_totp_user) 2000 + 1"
    by code_simp
  have chT: "findChallenge (db_loginChallenge ?c9) ''c1'' = Some ?ch"
    by (simp add: findChallenge_def ex_challenged_def)
  have ownT: "findUserById (db_user ?c9) (ch_userId ?ch) = Some ex_totp_user"
    by (simp add: findUserById_def ex_challenged_def ex_totp_def ex_totp_user_def ex_user_def)
  have secT: "u_totpEnabled ex_totp_user" "u_totpSecret ex_totp_user = Some ''SECRET''"
    by (simp_all add: ex_totp_user_def)
  have wrongT: "\<not> totp_verify ex_env ''000000'' ''SECRET'' 2000"
    by (simp add: ex_env_def)
  have idT: "u_id ex_totp_user = ''u1''"
    by (simp add: ex_totp_user_def ex_user_def)
  from lockout_set_and_enforced [where st = ?c9 and email = "''a@x.com''" and u = ex_totp_user
      and owner = ex_totp_user and ch = ?ch and cid = "''c1''" and s = "''SECRET''"
      and totpCode = "''000000''" and ev = ex_env and ip = "''1.2.3.4''" and ua = None
      and now = 2000 and later = 2000, unfolded ne, OF accT] thT chT ownT secT wrongT
  have two: "findUserById
     (db_user (snd (loginTotp ex_env ?c9 ''1.2.3.4'' None ''c1'' ''000000'' 2000))) ''u1'' =
     Some (ex_totp_user\<lparr>u_lockedUntil := Some 902000\<rparr>)"
    by (simp add: idT)
  have accg: "findUserByEmail (db_user ex_guarded) ''a@x.com'' = Some ?lu"
    by (simp add: findUserByEmail_def ex_guarded_def ex_user_def)
  have ipg: "allowed (checkIpRateLimit (loginAttempts ex_guarded) ''5.6.7.8'' 1000)"
      "allowed (checkIpRateLimit (loginAttempts ex_guarded) ''5.6.7.8'' 899999)"
    by code_simp+
  have m: "ceil_div 898800 60000 = 15" "ceil_div (- 1) 60000 = 0"
    by (simp_all add: ceil_div_def)
  from lockout_set_and_enforced [where st = ex_guarded and email = "''a@x.com''"
      and u = ?lu and t = 900000 and ev = ex_env and ip = "''5.6.7.8''" and ua = None
      and pw = "''good''" and now = 1000 and later = 1200 and nid = "''c''", unfolded ne, OF accg]
    ipg
  have three: "login ex_env ex_guarded ''5.6.7.8'' None ''a@x.com'' ''good'' 1000 1200 ''c'' =
     ((reply 423)\<lparr>error := Some (MsgAccountLocked 15), code := Some ''ACCOUNT_LOCKED'',
                   retryAfter := Some 900\<rparr>, ex_guarded)"
    by (simp add: m)
  from lockout_set_and_enforced [where st = ex_guarded and email = "''a@x.com''"
      and u = ?lu and t = 900000 and ev = ex_env and ip = "''5.6.7.8''" and ua = None
      and pw = "''good''" and now = 899999 and later = 900001 and nid = "''c''", unfolded ne, OF accg]
    ipg
  have four: "login ex_env ex_guarded ''5.6.7.8'' None ''a@x.com'' ''good'' 899999 900001 ''c'' =
     ((reply 423)\<lparr>error := Some (MsgAccountLocked 0), code := Some ''ACCOUNT_LOCKED'',
                   retryAfter := Some 0\<rparr>, ex_guarded)"
    by (simp add: m)
  from one two three four show ?thesis by blast
qed

subsection \<open>Single use of a challenge\<close>

lemma loginTotp_check_Inl:
  assumes "loginTotp_check ev st ip ua cid totpCode now = Inl (r, st')"
  shows "cookie r = None \<and> db_loginChallenge st' = db_loginChallenge st"
  using assms
  by (auto simp: loginTotp_check_def recordLoginAttempt_def Let_def response_defs
      split: option.splits if_splits)

lemma loginTotp_check_Inr:
  assumes "loginTotp_check ev st ip ua cid totpCode now = Inr (ch, u)"
  shows "findChallenge (db_loginChallenge st) cid = Some ch \<and> ch_usedAt ch = None \<and>
         now < ch_expiresAt ch \<and> findUserById (db_user st) (ch_userId ch) = Some u"
  using assms
  by (auto simp: loginTotp_check_def recordLoginAttempt_def Let_def
      split: option.splits if_splits prod.splits)

lemma loginTotp_commit_challenges:
  "db_loginChallenge (snd (loginTotp_commit ev st ip ua ch u now)) =
     (if findChallenge (db_loginChallenge st) (ch_id ch) = None then db_loginChallenge st
      else markUsed (db_loginChallenge st) (ch_id ch) now)"
  by (simp add: loginTotp_commit_def recordLoginAttempt_def Let_def)

lemma loginTotp_used:
  assumes "findChallenge (db_loginChallenge st) cid = Some ch" "ch_usedAt ch \<noteq> None"
  shows "loginTotp ev st ip ua cid totpCode now = ((reply 410)\<lparr>error := Some MsgChallengeUsed\<rparr>, st)"
  using assms by (auto simp: loginTotp_def loginTotp_check_def)

text \<open>After a verification that set the cookie, the challenge is refused as used.\<close>

lemma loginTotp_after_success:
  assumes issued: "cookie (fst (loginTotp ev st ip ua cid totpCode now)) \<noteq> None"
  shows "loginTotp ev2 (snd (loginTotp ev st ip ua cid totpCode now)) ip2 ua2 cid totpCode2 now2 =
           ((reply 410)\<lparr>error := Some MsgChallengeUsed\<rparr>,
            snd (loginTotp ev st ip ua cid totpCode now))"
proof (cases "loginTotp_check ev st ip ua cid totpCode now")
  case (Inl p)
  then have "loginTotp ev st ip ua cid totpCode now = p"
    by (simp add: loginTotp_def)
  with issued loginTotp_check_Inl [of ev st ip ua cid totpCode now "fst p" "snd p"] Inl
  show ?thesis by simp
next
  case (Inr q)
  obtain ch' u' where q: "q = (ch', u')" by (cases q)
  from Inr q have res: "loginTotp ev st ip ua cid totpCode now = loginTotp_commit ev st ip ua ch' u' now"
    by (simp add: loginTotp_def)
  from loginTotp_check_Inr [OF Inr [unfolded q]]
  have found: "findChallenge (db_loginChallenge st) cid = Some ch'" by simp
  then have idc: "ch_id ch' = cid" by (rule findChallenge_id)
  have "db_loginChallenge (snd (loginTotp ev st ip ua cid totpCode now)) =
          markUsed (db_loginChallenge st) cid now"
    using res idc found by (simp add: loginTotp_commit_challenges)
  then have "findChallenge (db_loginChallenge (snd (loginTotp ev st ip ua cid totpCode now))) cid =
          Some (ch'\<lparr>ch_usedAt := Some now\<rparr>)"
    using found idc by (simp add: findChallenge_markUsed)
  then show ?thesis
    by (rule loginTotp_used) simp
qed

text \<open>
  Claim C5, for verifications that run one after the other.
  \<^item> A verification of a challenge that is used, or whose expiry is not after the clock,
    is answered 410 (\<^verbatim>\<open>Challenge already used\<close>, else \<^verbatim>\<open>Challenge expired\<close>)
    whatever the code and the verifier say; no cookie is set and the state is untouched.
  \<^item> After a verification that set the session cookie, every verification of the same
    challenge key, with any code and at any time, is answered
    \<^verbatim>\<open>Challenge already used\<close> and changes nothing.
  \<^item> A used challenge is left as it is by every verification, so the step from unused to
    used is taken once.
\<close>

theorem used_or_expired_challenge_fails:
  fixes ev ev2 :: env and st :: state and ch c :: loginChallenge
    and ip ip2 cid i totpCode totpCode2 :: string and ua ua2 :: "string option" and now now2 :: int
  defines "result \<equiv> loginTotp ev st ip ua cid totpCode now"
  shows
   "(findChallenge (db_loginChallenge st) cid = Some ch \<and>
     (ch_usedAt ch \<noteq> None \<or> ch_expiresAt ch \<le> now) \<longrightarrow>
       result = ((reply 410)\<lparr>error := Some (if ch_usedAt ch \<noteq> None then MsgChallengeUsed
                                                else MsgChallengeExpired)\<rparr>, st) \<and>
       cookie (fst result) = None) \<and>
    (cookie (fst result) \<noteq> None \<longrightarrow>
       loginTotp ev2 (snd result) ip2 ua2 cid totpCode2 now2 =
         ((reply 410)\<lparr>error := Some MsgChallengeUsed\<rparr>, snd result)) \<and>
    (findChallenge (db_loginChallenge st) i = Some c \<and> ch_usedAt c \<noteq> None \<longrightarrow>
       findChallenge (db_loginChallenge (snd result)) i = Some c)"
proof -
  have A: "result = ((reply 410)\<lparr>error := Some (if ch_usedAt ch \<noteq> None then MsgChallengeUsed
                                                else MsgChallengeExpired)\<rparr>, st) \<and>
       cookie (fst result) = None"
    if "findChallenge (db_loginChallenge st) cid = Some ch"
      and "ch_usedAt ch \<noteq> None \<or> ch_expiresAt ch \<le> now"
    using that by (auto simp: result_def loginTotp_def loginTotp_check_def reply_def)
  have B: "loginTotp ev2 (snd result) ip2 ua2 cid totpCode2 now2 =
         ((reply 410)\<lparr>error := Some MsgChallengeUsed\<rparr>, snd result)"
    if issued: "cookie (fst result) \<noteq> None"
    using issued unfolding result_def by (rule loginTotp_after_success)
  have C: "findChallenge (db_loginChallenge (snd result)) i = Some c"
    if kept: "findChallenge (db_loginChallenge st) i = Some c" and used: "ch_usedAt c \<noteq> None"
  proof (cases "loginTotp_check ev st ip ua cid totpCode now")
    case (Inl p)
    then have "result = p"
      by (simp add: result_def loginTotp_def)
    with kept loginTotp_check_Inl [of ev st ip ua cid totpCode now "fst p" "snd p"] Inl
    show ?thesis by simp
  next
    case (Inr q)
    obtain ch' u' where q: "q = (ch', u')" by (cases q)
    from Inr q have res: "result = loginTotp_commit ev st ip ua ch' u' now"
      by (simp add: result_def loginTotp_def)
    from loginTotp_check_Inr [OF Inr [unfolded q]]
    have found: "findChallenge (db_loginChallenge st) cid = Some ch'" and fresh: "ch_usedAt ch' = None"
      by simp_all
    have "i \<noteq> cid"
      using kept used found fresh by auto
    moreover have "ch_id ch' = cid" "ch_id c = i"
      using found kept by (simp_all add: findChallenge_id)
    ultimately show ?thesis
      using kept by (simp add: res loginTotp_commit_challenges findChallenge_markUsed)
  qed
  from A B C show ?thesis by blast
qed

theorem used_or_expired_challenge_fails_witness:
  "cookie (fst (loginTotp ex_env ex_challenged ''1.2.3.4'' None ''c1'' ''123456'' 2000)) = Some ''jwt:u1'' \<and>
   loginTotp ex_env (snd (loginTotp ex_env ex_challenged ''1.2.3.4'' None ''c1'' ''123456'' 2000))
       ''1.2.3.4'' None ''c1'' ''123456'' 3000 =
     ((reply 410)\<lparr>error := Some MsgChallengeUsed\<rparr>,
      snd (loginTotp ex_env ex_challenged ''1.2.3.4'' None ''c1'' ''123456'' 2000)) \<and>
   loginTotp ex_env ex_challenged ''1.2.3.4'' None ''c1'' ''123456'' 121000 =
     ((reply 410)\<lparr>error := Some MsgChallengeExpired\<rparr>, ex_challenged) \<and>
   loginTotp ex_env ex_used ''1.2.3.4'' None ''c1'' ''123456'' 3000 =
     ((reply 410)\<lparr>error := Some MsgChallengeUsed\<rparr>, ex_used) \<and>
   findChallenge (db_loginChallenge
       (snd (loginTotp ex_env ex_used ''1.2.3.4'' None ''c1'' ''123456'' 3000))) ''c1'' =
     Some \<lparr>ch_id = ''c1'', ch_userId = ''u1'', ch_expiresAt = 121000, ch_usedAt = Some 2000\<rparr>"
proof -
  let ?open = "\<lparr>ch_id = ''c1'', ch_userId = ''u1'', ch_expiresAt = 121000, ch_usedAt = None\<rparr>"
  let ?used = "\<lparr>ch_id = ''c1'', ch_userId = ''u1'', ch_expiresAt = 121000, ch_usedAt = Some 2000\<rparr>"
  have issued: "cookie (fst (loginTotp ex_env ex_challenged ''1.2.3.4'' None ''c1'' ''123456'' 2000)) =
      Some ''jwt:u1''"
    by code_simp
  have f1: "findChallenge (db_loginChallenge ex_challenged) ''c1'' = Some ?open"
    by (simp add: findChallenge_def ex_challenged_def)
  have f2: "findChallenge (db_loginChallenge ex_used) ''c1'' = Some ?used"
    by (simp add: findChallenge_def ex_used_def)
  have second: "loginTotp ex_env (snd (loginTotp ex_env ex_challenged ''1.2.3.4'' None ''c1'' ''123456'' 2000))
       ''1.2.3.4'' None ''c1'' ''123456'' 3000 =
     ((reply 410)\<lparr>error := Some MsgChallengeUsed\<rparr>,
      snd (loginTotp ex_env ex_challenged ''1.2.3.4'' None ''c1'' ''123456'' 2000))"
    using used_or_expired_challenge_fails [where st = ex_challenged and ev = ex_env
        and ip = "''1.2.3.4''" and ua = None and cid = "''c1''" and totpCode = "''123456''"
        and now = 2000] issued
    by simp
  have late: "loginTotp ex_env ex_challenged ''1.2.3.4'' None ''c1'' ''123456'' 121000 =
     ((reply 410)\<lparr>error := Some MsgChallengeExpired\<rparr>, ex_challenged)"
    using used_or_expired_challenge_fails [where st = ex_challenged and ch = ?open
        and cid = "''c1''" and now = 121000] f1
    by simp
  have again: "loginTotp ex_env ex_used ''1.2.3.4'' None ''c1'' ''123456'' 3000 =
     ((reply 410)\<lparr>error := Some MsgChallengeUsed\<rparr>, ex_used) \<and>
   findChallenge (db_loginChallenge
       (snd (loginTotp ex_env ex_used ''1.2.3.4'' None ''c1'' ''123456'' 3000))) ''c1'' = Some ?used"
    using used_or_expired_challenge_fails [where st = ex_used and ch = ?used and c = ?used
        and cid = "''c1''" and i = "''c1''" and now = 3000] f2
    by simp
  from issued second late again show ?thesis by blast
qed

subsection \<open>Two verifications of one challenge\<close>

text \<open>
  Claim C6: the consumption of a challenge is an atomic check-and-set, so that of two
  concurrent verifications of one challenge only one consumes it. The handler means a
  challenge to be used once (it refuses one whose \<^verbatim>\<open>usedAt\<close> is set) and does not
  achieve it: it reads the challenge, tests \<^verbatim>\<open>usedAt\<close>, and after an
  \<^verbatim>\<open>await\<close> writes it with \<^verbatim>\<open>update({ where: { id }, data: { usedAt } })\<close>,
  which names no condition on \<^verbatim>\<open>usedAt\<close> and runs in no transaction. Two requests
  for the unused challenge \<^verbatim>\<open>c1\<close> that have both read it before either writes are
  both answered 200 with a session cookie.
\<close>

theorem challenge_consumed_twice:
  "case loginTotp_interleaved ex_env ex_challenged ''c1'' (ex_call ''1.2.3.4'' 2000) (ex_call ''5.6.7.8'' 2000) of
     None \<Rightarrow> False
   | Some (rA, rB, s) \<Rightarrow>
       status rA = 200 \<and> cookie rA = Some ''jwt:u1'' \<and>
       status rB = 200 \<and> cookie rB = Some ''jwt:u1''"
  by code_simp

lemma findUserById_after_commit:
  assumes "findUserById us i \<noteq> None"
  shows "findUserById (touchLastLogin (unlockUsers us e) j now) i \<noteq> None"
  using assms by (simp add: findUserById_touchLastLogin findUserById_unlockUsers)

text \<open>
  The same for any two requests that have both read the challenge unused and passed the
  checks: each is answered with a session cookie and each writes \<^verbatim>\<open>usedAt\<close>.
  Handled one after the other, the second is refused.
\<close>

lemma loginTotp_race:
  fixes ev :: env and st :: state and cid :: string and a b :: totp_call
  assumes readA: "loginTotp_check ev st (c_ip a) (c_userAgent a) cid (c_code a) (c_time a) = Inr (ch, u)"
    and readB: "loginTotp_check ev st (c_ip b) (c_userAgent b) cid (c_code b) (c_time b) = Inr (ch', u')"
  shows "(\<exists>rA rB s. loginTotp_interleaved ev st cid a b = Some (rA, rB, s) \<and>
            cookie rA = Some (jwt_sign ev (u_id u) (c_time a)) \<and>
            cookie rB = Some (jwt_sign ev (u_id u) (c_time b)) \<and>
            findChallenge (db_loginChallenge s) cid = Some (ch\<lparr>ch_usedAt := Some (c_time b)\<rparr>)) \<and>
         (\<exists>rA rB s. loginTotp_sequential ev st cid a b = (rA, rB, s) \<and>
            cookie rA = Some (jwt_sign ev (u_id u) (c_time a)) \<and>
            rB = (reply 410)\<lparr>error := Some MsgChallengeUsed\<rparr> \<and>
            findChallenge (db_loginChallenge s) cid = Some (ch\<lparr>ch_usedAt := Some (c_time a)\<rparr>))"
proof -
  from loginTotp_check_Inr [OF readA]
  have found: "findChallenge (db_loginChallenge st) cid = Some ch"
    and owner: "findUserById (db_user st) (ch_userId ch) = Some u" by simp_all
  from loginTotp_check_Inr [OF readB] found owner
  have same: "ch' = ch" "u' = u" by simp_all
  have idc: "ch_id ch = cid"
    using found by (rule findChallenge_id)
  have idu: "u_id u = ch_userId ch"
    using owner by (rule findUserById_id)
  have c0: "findChallenge (db_loginChallenge st) (ch_id ch) \<noteq> None"
    using found idc by simp
  have u0: "findUserById (db_user st) (u_id u) \<noteq> None"
    using owner idu by simp
  obtain rA st1 where A: "loginTotp_commit ev st (c_ip a) (c_userAgent a) ch u (c_time a) = (rA, st1)"
    by (cases "loginTotp_commit ev st (c_ip a) (c_userAgent a) ch u (c_time a)")
  from A loginTotp_commit_done [OF c0 u0, of ev "c_ip a" "c_userAgent a" "c_time a"]
  have rA: "cookie rA = Some (jwt_sign ev (u_id u) (c_time a))"
    and cs1: "db_loginChallenge st1 = markUsed (db_loginChallenge st) cid (c_time a)"
    and us1: "db_user st1 = touchLastLogin (unlockUsers (db_user st) (u_email u)) (u_id u) (c_time a)"
    using idc by auto
  have f1: "findChallenge (db_loginChallenge st1) cid = Some (ch\<lparr>ch_usedAt := Some (c_time a)\<rparr>)"
    using found idc by (simp add: cs1 findChallenge_markUsed)
  have c1: "findChallenge (db_loginChallenge st1) (ch_id ch) \<noteq> None"
    using f1 idc by simp
  have u1: "findUserById (db_user st1) (u_id u) \<noteq> None"
    unfolding us1 using u0 by (rule findUserById_after_commit)
  obtain rB st2 where B: "loginTotp_commit ev st1 (c_ip b) (c_userAgent b) ch u (c_time b) = (rB, st2)"
    by (cases "loginTotp_commit ev st1 (c_ip b) (c_userAgent b) ch u (c_time b)")
  from B loginTotp_commit_done [OF c1 u1, of ev "c_ip b" "c_userAgent b" "c_time b"]
  have rB: "cookie rB = Some (jwt_sign ev (u_id u) (c_time b))"
    and cs2: "db_loginChallenge st2 = markUsed (db_loginChallenge st1) cid (c_time b)"
    using idc by auto
  have f2: "findChallenge (db_loginChallenge st2) cid = Some (ch\<lparr>ch_usedAt := Some (c_time b)\<rparr>)"
    using f1 idc by (simp add: cs2 findChallenge_markUsed)
  have inter: "loginTotp_interleaved ev st cid a b = Some (rA, rB, st2)"
    using readA readB same A B by (simp add: loginTotp_interleaved_def)
  have first: "loginTotp ev st (c_ip a) (c_userAgent a) cid (c_code a) (c_time a) = (rA, st1)"
    using readA A by (simp add: loginTotp_def)
  have "cookie (fst (loginTotp ev st (c_ip a) (c_userAgent a) cid (c_code a) (c_time a))) \<noteq> None"
    using first rA by simp
  from loginTotp_after_success [OF this, of ev "c_ip b" "c_userAgent b" "c_code b" "c_time b"] first
  have second: "loginTotp ev st1 (c_ip b) (c_userAgent b) cid (c_code b) (c_time b) =
      ((reply 410)\<lparr>error := Some MsgChallengeUsed\<rparr>, st1)"
    by simp
  have seq: "loginTotp_sequential ev st cid a b = (rA, (reply 410)\<lparr>error := Some MsgChallengeUsed\<rparr>, st1)"
    using first second by (simp add: loginTotp_sequential_def)
  from inter rA rB f2 seq f1 show ?thesis by blast
qed

subsection \<open>What a successful login changes\<close>

text \<open>
  Claim C7, as stated: a successful login clears the lockout and the bucket of its IP and
  leaves the other buckets and the attempt ledger unchanged. The ledger is not left
  unchanged: the handler records the success in it. On the example server, empty before,
  the ledger holds one record after the login that set the session cookie.
\<close>

theorem ledger_grows_counterexample:
  "cookie (fst (login ex_env ex_state ''1.2.3.4'' None ''a@x.com'' ''good'' 1000 1000 ''c'')) = Some ''jwt:u1'' \<and>
   db_loginAttempt ex_state = [] \<and>
   db_loginAttempt (snd (login ex_env ex_state ''1.2.3.4'' None ''a@x.com'' ''good'' 1000 1000 ''c'')) =
     [\<lparr>la_email = ''a@x.com'', la_ip = ''1.2.3.4'', la_userAgent = None, la_success = True,
       la_userId = Some ''u1'', la_createdAt = 1000\<rparr>]"
  by code_simp

lemma findUserByEmail_unlockUsers:
  "findUserByEmail (unlockUsers us e) e' =
     map_option (\<lambda>u. if u_email u = e \<and> u_lockedUntil u \<noteq> None then u\<lparr>u_lockedUntil := None\<rparr> else u)
       (findUserByEmail us e')"
  unfolding findUserByEmail_def unlockUsers_def
  by (rule find_map_pres) simp

lemma findUserByEmail_touchLastLogin:
  "findUserByEmail (touchLastLogin us j now) e =
     map_option (\<lambda>u. if u_id u = j then u\<lparr>u_lastLoginAt := Some now\<rparr> else u) (findUserByEmail us e)"
  unfolding findUserByEmail_def touchLastLogin_def
  by (rule find_map_pres) simp

lemma unlock_touch:
  "(if u_lockedUntil u \<noteq> None then u\<lparr>u_lockedUntil := None\<rparr> else u)\<lparr>u_lastLoginAt := Some now\<rparr> =
     u\<lparr>u_lockedUntil := None, u_lastLoginAt := Some now\<rparr>"
  by (cases "u_lockedUntil u") simp_all

lemma ip_key_inj: "ip_key a = ip_key b \<longleftrightarrow> a = b"
  by (simp add: ip_key_def)

text \<open>What the credential section does for an account without a second factor.\<close>

lemma login_credentials_session:
  assumes account: "findUserByEmail (db_user st) e = Some u"
    and ok: "bcrypt_compare ev pw (u_passwordHash u)"
    and plain: "\<not> u_totpEnabled u \<or> \<not> truthy (u_totpSecret u)"
  shows "login_credentials ev st ip ua e pw now nid =
           ((reply 200)\<lparr>cookie := Some (jwt_sign ev (u_id u) now), totpRequired := Some False,
                         body_user := Some (public u)\<rparr>,
            st\<lparr>loginAttempts := clearIpAttempts (loginAttempts st) ip,
               db_loginAttempt := db_loginAttempt st @
                 [\<lparr>la_email = e, la_ip = ip, la_userAgent = or_null ua, la_success = True,
                   la_userId = or_null (Some (u_id u)), la_createdAt = now\<rparr>],
               db_user := touchLastLogin (unlockUsers (db_user st) e) (u_id u) now\<rparr>)"
  using assms
  by (auto simp: login_credentials_def recordLoginAttempt_def Let_def)

text \<open>
  Claim C7, amended: a successful login (a password login of an account without a second
  factor, or a second-factor verification) sets the session cookie, empties the lockout
  expiry of the account, deletes the bucket of the IP used and no other (the bucket of
  every other IP is as before), and appends one record, of the success, to the ledger,
  whose earlier records stay as they were.
\<close>

theorem successful_login_clears:
  fixes ev :: env and st :: state and u owner :: user and ch :: loginChallenge
    and ip email pw nid cid totpCode s :: string and ua :: "string option" and now later :: int
  defines "e \<equiv> normalizeEmail email"
    and "st1 \<equiv> snd (login ev st ip ua email pw now later nid)"
    and "st2 \<equiv> snd (loginTotp ev st ip ua cid totpCode now)"
  shows
   "(allowed (checkIpRateLimit (loginAttempts st) ip now) \<and>
     \<not> locked (checkAccountLockout st e now later) \<and>
     e_allowed (checkEmailRateLimit st e now) \<and>
     findUserByEmail (db_user st) e = Some u \<and>
     bcrypt_compare ev pw (u_passwordHash u) \<and>
     (\<not> u_totpEnabled u \<or> \<not> truthy (u_totpSecret u)) \<longrightarrow>
       cookie (fst (login ev st ip ua email pw now later nid)) = Some (jwt_sign ev (u_id u) now) \<and>
       findUserByEmail (db_user st1) e = Some (u\<lparr>u_lockedUntil := None, u_lastLoginAt := Some now\<rparr>) \<and>
       loginAttempts st1 (ip_key ip) = None \<and>
       (\<forall>ip'. ip' \<noteq> ip \<longrightarrow> loginAttempts st1 (ip_key ip') = loginAttempts st (ip_key ip')) \<and>
       db_loginAttempt st1 = db_loginAttempt st @
         [\<lparr>la_email = e, la_ip = ip, la_userAgent = or_null ua, la_success = True,
           la_userId = or_null (Some (u_id u)), la_createdAt = now\<rparr>]) \<and>
    (findChallenge (db_loginChallenge st) cid = Some ch \<and> ch_usedAt ch = None \<and>
     now < ch_expiresAt ch \<and>
     findUserById (db_user st) (ch_userId ch) = Some owner \<and>
     u_totpEnabled owner \<and> u_totpSecret owner = Some s \<and> s \<noteq> [] \<and>
     totp_verify ev totpCode s now \<longrightarrow>
       cookie (fst (loginTotp ev st ip ua cid totpCode now)) = Some (jwt_sign ev (u_id owner) now) \<and>
       findUserById (db_user st2) (u_id owner) =
         Some (owner\<lparr>u_lockedUntil := None, u_lastLoginAt := Some now\<rparr>) \<and>
       loginAttempts st2 (ip_key ip) = None \<and>
       (\<forall>ip'. ip' \<noteq> ip \<longrightarrow> loginAttempts st2 (ip_key ip') = loginAttempts st (ip_key ip')) \<and>
       db_loginAttempt st2 = db_loginAttempt st @
         [\<lparr>la_email = u_email owner, la_ip = ip, la_userAgent = or_null ua, la_success = True,
           la_userId = or_null (Some (u_id owner)), la_createdAt = now\<rparr>])"
proof -
  have A: "cookie (fst (login ev st ip ua email pw now later nid)) = Some (jwt_sign ev (u_id u) now) \<and>
       findUserByEmail (db_user st1) e = Some (u\<lparr>u_lockedUntil := None, u_lastLoginAt := Some now\<rparr>) \<and>
       loginAttempts st1 (ip_key ip) = None \<and>
       (\<forall>ip'. ip' \<noteq> ip \<longrightarrow> loginAttempts st1 (ip_key ip') = loginAttempts st (ip_key ip')) \<and>
       db_loginAttempt st1 = db_loginAttempt st @
         [\<lparr>la_email = e, la_ip = ip, la_userAgent = or_null ua, la_success = True,
           la_userId = or_null (Some (u_id u)), la_createdAt = now\<rparr>]"
    if guards: "allowed (checkIpRateLimit (loginAttempts st) ip now)"
        "\<not> locked (checkAccountLockout st e now later)" "e_allowed (checkEmailRateLimit st e now)"
      and account: "findUserByEmail (db_user st) e = Some u"
      and ok: "bcrypt_compare ev pw (u_passwordHash u)"
      and plain: "\<not> u_totpEnabled u \<or> \<not> truthy (u_totpSecret u)"
  proof -
    have "login ev st ip ua email pw now later nid = login_credentials ev st ip ua e pw now nid"
      using guards by (simp add: login_def Let_def e_def)
    then have run: "login ev st ip ua email pw now later nid =
           ((reply 200)\<lparr>cookie := Some (jwt_sign ev (u_id u) now), totpRequired := Some False,
                         body_user := Some (public u)\<rparr>,
            st\<lparr>loginAttempts := clearIpAttempts (loginAttempts st) ip,
               db_loginAttempt := db_loginAttempt st @
                 [\<lparr>la_email = e, la_ip = ip, la_userAgent = or_null ua, la_success = True,
                   la_userId = or_null (Some (u_id u)), la_createdAt = now\<rparr>],
               db_user := touchLastLogin (unlockUsers (db_user st) e) (u_id u) now\<rparr>)"
      using login_credentials_session [OF account ok plain] by simp
    have "findUserByEmail (touchLastLogin (unlockUsers (db_user st) e) (u_id u) now) e =
            Some (u\<lparr>u_lockedUntil := None, u_lastLoginAt := Some now\<rparr>)"
      using account findUser_email [OF account]
      by (simp add: findUserByEmail_touchLastLogin findUserByEmail_unlockUsers unlock_touch)
    then show ?thesis
      by (simp add: st1_def run clearIpAttempts_def ip_key_inj reply_def)
  qed
  have B: "cookie (fst (loginTotp ev st ip ua cid totpCode now)) = Some (jwt_sign ev (u_id owner) now) \<and>
       findUserById (db_user st2) (u_id owner) =
         Some (owner\<lparr>u_lockedUntil := None, u_lastLoginAt := Some now\<rparr>) \<and>
       loginAttempts st2 (ip_key ip) = None \<and>
       (\<forall>ip'. ip' \<noteq> ip \<longrightarrow> loginAttempts st2 (ip_key ip') = loginAttempts st (ip_key ip')) \<and>
       db_loginAttempt st2 = db_loginAttempt st @
         [\<lparr>la_email = u_email owner, la_ip = ip, la_userAgent = or_null ua, la_success = True,
           la_userId = or_null (Some (u_id owner)), la_createdAt = now\<rparr>]"
    if challenge: "findChallenge (db_loginChallenge st) cid = Some ch" and unused: "ch_usedAt ch = None"
      and unexpired: "now < ch_expiresAt ch"
      and own: "findUserById (db_user st) (ch_userId ch) = Some owner"
      and enabled: "u_totpEnabled owner" and secret: "u_totpSecret owner = Some s" "s \<noteq> []"
      and correct: "totp_verify ev totpCode s now"
  proof -
    have c: "findChallenge (db_loginChallenge st) (ch_id ch) \<noteq> None"
      using challenge findChallenge_id [OF challenge] by simp
    have idu: "u_id owner = ch_userId ch"
      using own by (rule findUserById_id)
    have o: "findUserById (db_user st) (u_id owner) \<noteq> None"
      using own idu by simp
    have run: "loginTotp ev st ip ua cid totpCode now = loginTotp_commit ev st ip ua ch owner now"
      using loginTotp_check_pass [OF challenge unused unexpired own enabled secret correct]
      by (simp add: loginTotp_def)
    have "findUserById (touchLastLogin (unlockUsers (db_user st) (u_email owner)) (u_id owner) now)
            (u_id owner) = Some (owner\<lparr>u_lockedUntil := None, u_lastLoginAt := Some now\<rparr>)"
      using own idu
      by (simp add: findUserById_touchLastLogin findUserById_unlockUsers unlock_touch)
    then show ?thesis
      by (simp add: st2_def run loginTotp_commit_done [OF c o] clearIpAttempts_def ip_key_inj reply_def)
  qed
  from A B show ?thesis by blast
qed


theorem successful_login_clears_witness:
  "findUserByEmail (db_user (snd (login ex_env ex_before ''1.2.3.4'' None ''a@x.com'' ''good'' 1000 1000 ''c'')))
       ''a@x.com'' = Some (ex_user\<lparr>u_lockedUntil := None, u_lastLoginAt := Some 1000\<rparr>) \<and>
   loginAttempts (snd (login ex_env ex_before ''1.2.3.4'' None ''a@x.com'' ''good'' 1000 1000 ''c''))
       (ip_key ''1.2.3.4'') = None \<and>
   loginAttempts (snd (login ex_env ex_before ''1.2.3.4'' None ''a@x.com'' ''good'' 1000 1000 ''c''))
       (ip_key ''5.6.7.8'') = Some \<lparr>count = 5, firstAttempt = 0\<rparr> \<and>
   db_loginAttempt (snd (login ex_env ex_before ''1.2.3.4'' None ''a@x.com'' ''good'' 1000 1000 ''c'')) =
     ex_failures 2 0 @
       [\<lparr>la_email = ''a@x.com'', la_ip = ''1.2.3.4'', la_userAgent = None, la_success = True,
         la_userId = Some ''u1'', la_createdAt = 1000\<rparr>] \<and>
   findUserById (db_user (snd (loginTotp ex_env ex_guarded_totp ''1.2.3.4'' None ''c1'' ''123456'' 1000)))
       ''u1'' = Some (ex_totp_user\<lparr>u_lockedUntil := None, u_lastLoginAt := Some 1000\<rparr>) \<and>
   loginAttempts (snd (loginTotp ex_env ex_guarded_totp ''1.2.3.4'' None ''c1'' ''123456'' 1000))
       (ip_key ''1.2.3.4'') = None"
proof -
  let ?u = "ex_user\<lparr>u_lockedUntil := Some 500\<rparr>"
  let ?ch = "\<lparr>ch_id = ''c1'', ch_userId = ''u1'', ch_expiresAt = 121000, ch_usedAt = None\<rparr>"
  let ?o = "ex_totp_user\<lparr>u_lockedUntil := Some 900000\<rparr>"
  have ne: "normalizeEmail ''a@x.com'' = ''a@x.com''"
    by code_simp
  have g: "allowed (checkIpRateLimit (loginAttempts ex_before) ''1.2.3.4'' 1000)"
      "\<not> locked (checkAccountLockout ex_before ''a@x.com'' 1000 1000)"
      "e_allowed (checkEmailRateLimit ex_before ''a@x.com'' 1000)"
    by code_simp+
  have account: "findUserByEmail (db_user ex_before) ''a@x.com'' = Some ?u"
    by (simp add: findUserByEmail_def ex_before_def ex_user_def)
  have ok: "bcrypt_compare ex_env ''good'' (u_passwordHash ?u)"
    by (simp add: ex_env_def ex_user_def)
  have plain: "\<not> u_totpEnabled ?u \<or> \<not> truthy (u_totpSecret ?u)"
    by (simp add: ex_user_def)
  have other: "loginAttempts ex_before (ip_key ''5.6.7.8'') = Some \<lparr>count = 5, firstAttempt = 0\<rparr>"
    by (simp add: ex_before_def ip_key_def)
  have ledger: "db_loginAttempt ex_before = ex_failures 2 0"
    by (simp add: ex_before_def)
  have challenge: "findChallenge (db_loginChallenge ex_guarded_totp) ''c1'' = Some ?ch"
    by (simp add: findChallenge_def ex_guarded_totp_def)
  have owner: "findUserById (db_user ex_guarded_totp) (ch_userId ?ch) = Some ?o"
    by (simp add: findUserById_def ex_guarded_totp_def ex_totp_user_def ex_user_def)
  have secret: "u_totpEnabled ?o" "u_totpSecret ?o = Some ''SECRET''" "''SECRET'' \<noteq> []"
    by (simp_all add: ex_totp_user_def)
  have correct: "totp_verify ex_env ''123456'' ''SECRET'' 1000"
    by (simp add: ex_env_def)
  have ids: "u_id ?u = ''u1''" "u_id ?o = ''u1''"
    by (simp_all add: ex_totp_user_def ex_user_def)
  have "''5.6.7.8'' \<noteq> ''1.2.3.4''"
    by simp
  with successful_login_clears [where st = ex_before and email = "''a@x.com''" and u = ?u
      and ev = ex_env and ip = "''1.2.3.4''" and ua = None and pw = "''good''" and now = 1000 and later = 1000
      and nid = "''c''", unfolded ne] g account ok plain other ledger
  have one: "findUserByEmail (db_user (snd (login ex_env ex_before ''1.2.3.4'' None ''a@x.com'' ''good'' 1000 1000 ''c'')))
       ''a@x.com'' = Some (ex_user\<lparr>u_lockedUntil := None, u_lastLoginAt := Some 1000\<rparr>) \<and>
   loginAttempts (snd (login ex_env ex_before ''1.2.3.4'' None ''a@x.com'' ''good'' 1000 1000 ''c''))
       (ip_key ''1.2.3.4'') = None \<and>
   loginAttempts (snd (login ex_env ex_before ''1.2.3.4'' None ''a@x.com'' ''good'' 1000 1000 ''c''))
       (ip_key ''5.6.7.8'') = Some \<lparr>count = 5, firstAttempt = 0\<rparr> \<and>
   db_loginAttempt (snd (login ex_env ex_before ''1.2.3.4'' None ''a@x.com'' ''good'' 1000 1000 ''c'')) =
     ex_failures 2 0 @
       [\<lparr>la_email = ''a@x.com'', la_ip = ''1.2.3.4'', la_userAgent = None, la_success = True,
         la_userId = Some ''u1'', la_createdAt = 1000\<rparr>]"
    by (simp add: ids or_null_def truthy_def)
  from successful_login_clears [where st = ex_guarded_totp and cid = "''c1''" and ch = ?ch
      and owner = ?o and s = "''SECRET''" and ev = ex_env and ip = "''1.2.3.4''" and ua = None
      and totpCode = "''123456''" and now = 1000] challenge owner secret correct
  have two: "findUserById (db_user (snd (loginTotp ex_env ex_guarded_totp ''1.2.3.4'' None ''c1'' ''123456'' 1000)))
       ''u1'' = Some (ex_totp_user\<lparr>u_lockedUntil := None, u_lastLoginAt := Some 1000\<rparr>) \<and>
   loginAttempts (snd (loginTotp ex_env ex_guarded_totp ''1.2.3.4'' None ''c1'' ''123456'' 1000))
       (ip_key ''1.2.3.4'') = None"
    by (simp add: ids)
  from one two show ?thesis by blast
qed

subsection \<open>Credentials at the auth gate\<close>

lemma startsWith_append: "startsWith (p @ t) p"
  by (simp add: startsWith_def)

text \<open>
  Claim C9. The gate takes the token from the \<^verbatim>\<open>authorization\<close> header when the header
  carries a bearer token, whatever the cookie holds, and from the \<^verbatim>\<open>eco_token\<close>
  cookie otherwise (the first pair of the cookie header whose name, trimmed, is
  \<^verbatim>\<open>eco_token\<close>). The token is handed to \<^verbatim>\<open>jwt.verify\<close>, which checks signature and
  expiry. When no token is found (or an empty one), when verification throws, or when the
  payload has no subject, \<open>requireAuth\<close> answers 401 and does not call the next handler,
  and \<open>optionalAuth\<close> calls it with no identity; with a verified token that has a
  subject, both call the next handler with the subject as the user's id.
\<close>

theorem auth_gate:
  fixes ev :: env and req :: request and now :: int
  defines "token \<equiv> getTokenFromRequest ev req"
    and "fromCookie \<equiv> getCookieValue ev (cookie_header req) ''eco_token''"
  shows
   "(\<forall>t. authorization req = Some (''Bearer '' @ t) \<longrightarrow> token = Some t) \<and>
    ((case authorization req of None \<Rightarrow> True | Some h \<Rightarrow> \<not> startsWith h ''Bearer '') \<longrightarrow>
       token = fromCookie) \<and>
    (\<not> truthy token \<longrightarrow>
       requireAuth ev req now = Reject unauthorized \<and> optionalAuth ev req now = Next None) \<and>
    (\<forall>t. token = Some t \<and> jwt_verify ev t now = None \<longrightarrow>
       requireAuth ev req now = Reject unauthorized \<and> optionalAuth ev req now = Next None) \<and>
    (\<forall>t p. token = Some t \<and> t \<noteq> [] \<and> jwt_verify ev t now = Some p \<longrightarrow>
       (if truthy (sub p)
        then requireAuth ev req now = Next (sub p) \<and> optionalAuth ev req now = Next (sub p)
        else requireAuth ev req now = Reject unauthorized \<and> optionalAuth ev req now = Next None)) \<and>
    status unauthorized = 401 \<and> cookie unauthorized = None"
proof -
  have hdr: "token = Some t" if "authorization req = Some (''Bearer '' @ t)" for t
    using that startsWith_append [of "''Bearer ''" t]
    by (simp add: token_def getTokenFromRequest_def)
  have ck: "token = fromCookie"
    if "case authorization req of None \<Rightarrow> True | Some h \<Rightarrow> \<not> startsWith h ''Bearer ''"
    using that by (simp add: token_def fromCookie_def getTokenFromRequest_def split: option.splits)
  have absent: "requireAuth ev req now = Reject unauthorized \<and> optionalAuth ev req now = Next None"
    if "\<not> truthy token"
    using that by (simp add: token_def requireAuth_def optionalAuth_def Let_def)
  have invalid: "requireAuth ev req now = Reject unauthorized \<and> optionalAuth ev req now = Next None"
    if "token = Some t" "jwt_verify ev t now = None" for t
    using that by (simp add: token_def requireAuth_def optionalAuth_def Let_def)
  have valid: "if truthy (sub p)
        then requireAuth ev req now = Next (sub p) \<and> optionalAuth ev req now = Next (sub p)
        else requireAuth ev req now = Reject unauthorized \<and> optionalAuth ev req now = Next None"
    if "token = Some t" "t \<noteq> []" "jwt_verify ev t now = Some p" for t p
    using that by (simp add: token_def requireAuth_def optionalAuth_def Let_def truthy_def)
  have "status unauthorized = 401 \<and> cookie unauthorized = None"
    by (simp add: unauthorized_def reply_def)
  with hdr ck absent invalid valid show ?thesis by blast
qed


theorem auth_gate_witness:
  "requireAuth ex_env ex_req_header 0 = Next (Some ''u1'') \<and>
   optionalAuth ex_env ex_req_header 0 = Next (Some ''u1'') \<and>
   requireAuth ex_env ex_req_cookie 0 = Next (Some ''u7'') \<and>
   optionalAuth ex_env ex_req_cookie 0 = Next (Some ''u7'') \<and>
   requireAuth ex_env ex_req_bad 0 = Reject unauthorized \<and>
   optionalAuth ex_env ex_req_bad 0 = Next None \<and>
   requireAuth ex_env ex_req_none 0 = Reject unauthorized \<and>
   optionalAuth ex_env ex_req_none 0 = Next None \<and>
   requireAuth ex_env ex_req_nbsp 0 = Next (Some ''u7'') \<and>
   optionalAuth ex_env ex_req_nbsp 0 = Next (Some ''u7'')"
proof -
  have h1: "authorization ex_req_header = Some (''Bearer '' @ ''jwt:u1'')"
    by (simp add: ex_req_header_def)
  have v1: "jwt_verify ex_env ''jwt:u1'' 0 = Some \<lparr>sub = Some ''u1''\<rparr>"
    by (simp add: ex_env_def)
  have one: "requireAuth ex_env ex_req_header 0 = Next (Some ''u1'') \<and>
      optionalAuth ex_env ex_req_header 0 = Next (Some ''u1'')"
    using auth_gate [of ex_req_header ex_env 0] h1 v1
    by (auto simp: truthy_def)
  have h2: "case authorization ex_req_cookie of None \<Rightarrow> True | Some h \<Rightarrow> \<not> startsWith h ''Bearer ''"
    by (simp add: ex_req_cookie_def)
  have c2: "getCookieValue ex_env (cookie_header ex_req_cookie) ''eco_token'' = Some ''jwt:u7''"
    by code_simp
  have v2: "jwt_verify ex_env ''jwt:u7'' 0 = Some \<lparr>sub = Some ''u7''\<rparr>"
    by (simp add: ex_env_def)
  have two: "requireAuth ex_env ex_req_cookie 0 = Next (Some ''u7'') \<and>
      optionalAuth ex_env ex_req_cookie 0 = Next (Some ''u7'')"
    using auth_gate [of ex_req_cookie ex_env 0] h2 c2 v2
    by (auto simp: truthy_def)
  have h3: "authorization ex_req_bad = Some (''Bearer '' @ ''bogus'')"
    by (simp add: ex_req_bad_def)
  have v3: "jwt_verify ex_env ''bogus'' 0 = None"
    by (simp add: ex_env_def)
  have three: "requireAuth ex_env ex_req_bad 0 = Reject unauthorized \<and>
      optionalAuth ex_env ex_req_bad 0 = Next None"
    using auth_gate [of ex_req_bad ex_env 0] h3 v3
    by auto
  have h4: "case authorization ex_req_none of None \<Rightarrow> True | Some h \<Rightarrow> \<not> startsWith h ''Bearer ''"
    by (simp add: ex_req_none_def)
  have c4: "getCookieValue ex_env (cookie_header ex_req_none) ''eco_token'' = None"
    by code_simp
  have four: "requireAuth ex_env ex_req_none 0 = Reject unauthorized \<and>
      optionalAuth ex_env ex_req_none 0 = Next None"
    using auth_gate [of ex_req_none ex_env 0] h4 c4
    by (auto simp: truthy_def)
  have h5: "case authorization ex_req_nbsp of None \<Rightarrow> True | Some h \<Rightarrow> \<not> startsWith h ''Bearer ''"
    by (simp add: ex_req_nbsp_def)
  have c5: "getCookieValue ex_env (cookie_header ex_req_nbsp) ''eco_token'' = Some ''jwt:u7''"
    by code_simp
  have five: "requireAuth ex_env ex_req_nbsp 0 = Next (Some ''u7'') \<and>
      optionalAuth ex_env ex_req_nbsp 0 = Next (Some ''u7'')"
    using auth_gate [of ex_req_nbsp ex_env 0] h5 c5 v2
    by (auto simp: truthy_def)
  from one two three four five show ?thesis by blast
qed

end
